theory Spec2Isabelle
  imports Main
begin

section \<open>Bytes, text and the Python runtime\<close>

text \<open>
  The session of \<^verbatim>\<open>smtp_proxy/smtp/session.py\<close> works on two kinds of sequences:
  \<^verbatim>\<open>bytes\<close> (what \<^verbatim>\<open>reader.readline()\<close> delivers and what
  becomes \<^verbatim>\<open>raw_message\<close>) and \<^verbatim>\<open>str\<close> (decoded command lines, addresses,
  replies). Both are lists of characters here. A byte is an 8-bit \<open>char\<close>; for text the
  model never looks inside a character except to compare it with an ASCII literal of the
  source, and every operation of Python that does (decoding, case mapping, white space,
  base64, the \<^verbatim>\<open>email\<close> package) is a field of the runtime record \<open>env\<close> below, so the
  theorems hold whatever these library functions compute.
\<close>

type_synonym bytes = string
type_synonym str = string
type_synonym datetime = nat

abbreviation CR :: char where "CR \<equiv> CHR 0x0D"
abbreviation LF :: char where "LF \<equiv> CHR 0x0A"

text \<open>The exceptions that reach the session's \<^verbatim>\<open>try\<close> blocks.\<close>

datatype exn =
    TimeoutError
  | ConnectionResetError
  | BrokenPipeError
  | UnicodeDecodeError
  | IndexError
  | ValueError
  | DatabaseError

text \<open>
  How a call ends: it returns a value, it raises, or it never returns (the body loop of
  \<^verbatim>\<open>_handle_data\<close> at end of input, see \<open>data_loop\<close>).
\<close>

datatype 'a outcome = Return 'a | Raise exn | Diverge

text \<open>
  One \<^verbatim>\<open>await asyncio.wait_for(self.reader.readline(), timeout=...)\<close> either delivers a
  line (with its terminator, as \<^verbatim>\<open>readline\<close> does) or raises; \<open>Raises TimeoutError\<close> is
  the read that exceeds \<^verbatim>\<open>read_timeout_seconds\<close>. When the list of events is used
  up, the peer has closed the connection and \<^verbatim>\<open>readline\<close> returns \<^verbatim>\<open>b""\<close> from then on.
\<close>

datatype read_event = Line bytes | Raises exn

text \<open>
  How one run of the \<^verbatim>\<open>try\<close> block of \<^verbatim>\<open>_handle_starttls\<close> ends. It succeeds, or
  it raises an exception that prints as the given text. An exception raised before the
  handshake has begun (building the context, \<^verbatim>\<open>load_cert_chain\<close>, a transport that
  cannot be upgraded) leaves the connection as it was. An exception of the handshake
  itself comes out of \<^verbatim>\<open>loop.start_tls\<close>, which closes the transport before it
  raises.
\<close>

datatype tls_outcome = Upgraded | SetupFailed str | HandshakeFailed str

text \<open>
  The runtime: the library functions the session calls, and the outcomes of the calls
  that leave the process.
\<close>

record env =
  utf8_decode_replace :: "bytes \<Rightarrow> str"
    \<comment> \<open>\<^verbatim>\<open>line.decode("utf-8", errors="replace")\<close>\<close>
  utf8_decode :: "bytes \<Rightarrow> str option"
    \<comment> \<open>\<^verbatim>\<open>b.decode()\<close>; \<open>None\<close> when it raises UnicodeDecodeError\<close>
  str_upper :: "str \<Rightarrow> str"
    \<comment> \<open>\<^verbatim>\<open>s.upper()\<close>\<close>
  str_isspace :: "char \<Rightarrow> bool"
    \<comment> \<open>the white space of \<^verbatim>\<open>str.strip()\<close> and \<^verbatim>\<open>str.split()\<close>\<close>
  b64decode_str :: "str \<Rightarrow> bytes option"
    \<comment> \<open>\<^verbatim>\<open>base64.b64decode\<close> of a \<^verbatim>\<open>str\<close>; \<open>None\<close> when it raises\<close>
  b64decode_bytes :: "bytes \<Rightarrow> bytes option"
    \<comment> \<open>\<^verbatim>\<open>base64.b64decode\<close> of \<^verbatim>\<open>bytes\<close>; \<open>None\<close> when it raises\<close>
  parse_message :: "bytes \<Rightarrow> str \<times> str"
    \<comment> \<open>lines 307 to 334 of \<^verbatim>\<open>_handle_data\<close>: subject and body that the
        \<^verbatim>\<open>email\<close> package extracts, with the fallbacks of the \<^verbatim>\<open>except\<close> clauses\<close>
  peername :: "str option"
    \<comment> \<open>the host of \<^verbatim>\<open>writer.get_extra_info("peername")\<close>, \<open>None\<close> when it is falsy\<close>
  start_tls :: "nat \<Rightarrow> tls_outcome"
    \<comment> \<open>the \<open>k\<close>-th run of the \<^verbatim>\<open>try\<close> block of \<^verbatim>\<open>_handle_starttls\<close> (loading the
        certificate, \<^verbatim>\<open>loop.start_tls\<close>)\<close>
  now :: "nat \<Rightarrow> datetime"
    \<comment> \<open>the \<open>k\<close>-th \<^verbatim>\<open>datetime.now()\<close> of the session\<close>
  create_raises :: "nat \<Rightarrow> bool"
    \<comment> \<open>whether the \<open>k\<close>-th \<^verbatim>\<open>email_repo.create\<close> of the session raises\<close>

subsection \<open>String operations of Python used by the session\<close>

definition startswith :: "'a list \<Rightarrow> 'a list \<Rightarrow> bool" where
  "startswith s p = (take (length p) s = p)"

definition endswith :: "'a list \<Rightarrow> 'a list \<Rightarrow> bool" where
  "endswith s p = (length p \<le> length s \<and> drop (length s - length p) s = p)"

text \<open>\<^verbatim>\<open>s.strip()\<close> with the white space \<open>sp\<close>.\<close>

definition strip :: "(char \<Rightarrow> bool) \<Rightarrow> string \<Rightarrow> string" where
  "strip sp s = rev (dropWhile sp (rev (dropWhile sp s)))"

text \<open>\<^verbatim>\<open>s.split(None, 1)\<close>: the first word and, when there is one, the rest.\<close>

definition split_maxsplit1 :: "(char \<Rightarrow> bool) \<Rightarrow> str \<Rightarrow> str list" where
  "split_maxsplit1 sp s =
     (let s1 = dropWhile sp s in
      if s1 = [] then []
      else
        let tok = takeWhile (\<lambda>c. \<not> sp c) s1;
            r = dropWhile sp (dropWhile (\<lambda>c. \<not> sp c) s1)
        in if r = [] then [tok] else [tok, r])"

text \<open>\<^verbatim>\<open>s.split()\<close>: the maximal runs of characters that are not white space;
  \<open>cur\<close> is the word being read.\<close>

fun split_ws :: "(char \<Rightarrow> bool) \<Rightarrow> str \<Rightarrow> str \<Rightarrow> str list" where
  "split_ws sp [] cur = (if cur = [] then [] else [cur])"
| "split_ws sp (c # cs) cur =
     (if sp c then (if cur = [] then split_ws sp cs [] else cur # split_ws sp cs [])
      else split_ws sp cs (cur @ [c]))"

definition str_split :: "(char \<Rightarrow> bool) \<Rightarrow> str \<Rightarrow> str list" where
  "str_split sp s = split_ws sp s []"

text \<open>\<^verbatim>\<open>s.split(sep)\<close> for a separator of one character.\<close>

fun split_on :: "'a \<Rightarrow> 'a list \<Rightarrow> 'a list list" where
  "split_on sep [] = [[]]"
| "split_on sep (c # cs) =
     (if c = sep then [] # split_on sep cs
      else (case split_on sep cs of
              [] \<Rightarrow> [[c]]
            | t # ts \<Rightarrow> (c # t) # ts))"

text \<open>\<^verbatim>\<open>s.find(p)\<close>: the first index where \<open>p\<close> occurs, \<open>None\<close> for Python's -1.
  \<^verbatim>\<open>p in s\<close> is \<open>str_find s p \<noteq> None\<close>, and \<^verbatim>\<open>s.index(p)\<close> is the index when there
  is one.\<close>

fun str_find :: "'a list \<Rightarrow> 'a list \<Rightarrow> nat option" where
  "str_find [] p = (if p = [] then Some 0 else None)"
| "str_find (c # cs) p =
     (if startswith (c # cs) p then Some 0 else map_option Suc (str_find cs p))"

text \<open>The white space of \<^verbatim>\<open>bytes.strip()\<close>: space, tab, line feed, vertical tab, form
  feed, carriage return.\<close>

definition bytes_isspace :: "char \<Rightarrow> bool" where
  "bytes_isspace c = (c = CHR '' '' \<or> c = CHR 0x09 \<or> c = LF \<or> c = CHR 0x0B \<or> c = CHR 0x0C \<or> c = CR)"

text \<open>An integer in an f-string: decimal digits, with a minus sign when negative.\<close>

function str_of_digits :: "int \<Rightarrow> str" where
  "str_of_digits n =
     (if n < 10 then [''0123456789'' ! nat n]
      else str_of_digits (n div 10) @ [''0123456789'' ! nat (n mod 10)])"
  by pat_completeness auto
termination
  by (relation "measure nat") auto

declare str_of_digits.simps [simp del]

definition str_of_int :: "int \<Rightarrow> str" where
  "str_of_int i = (if i < 0 then CHR ''-'' # str_of_digits (- i) else str_of_digits i)"

section \<open>Configuration, mail and session state\<close>

text \<open>\<^verbatim>\<open>smtp_proxy/config.py\<close>: the dataclasses the session reads.\<close>

record TLSConfig =
  enabled :: bool
  cert_file :: str
  key_file :: str

record AuthConfig =
  required :: bool
  username :: str
  password :: str

record SMTPConfig =
  host :: str
  port :: int
  domain :: str
  read_timeout_seconds :: int
  write_timeout_seconds :: int
  max_message_bytes :: int
  max_recipients :: int
  allow_insecure_auth :: bool
  tls :: TLSConfig
  auth :: AuthConfig

text \<open>\<^verbatim>\<open>smtp_proxy/models.py\<close>: the mail handed to the store. The fields
  \<^verbatim>\<open>id\<close>, \<^verbatim>\<open>auth_user\<close> and \<^verbatim>\<open>client_ip\<close> carry the prefix \<open>email_\<close>: the first
  name is taken by HOL, the other two by the session.\<close>

record Email =
  email_id :: int
  sender :: str
  recipients :: "str list"
  subject :: str
  body :: str
  raw_message :: bytes
  size_bytes :: int
  received_at :: datetime
  status :: str
  email_auth_user :: str
  email_client_ip :: str

datatype transport = Plaintext | TLSWrapped

text \<open>
  \<^verbatim>\<open>SMTPSession\<close>: the five fields of the session, and the objects it holds.
  \<open>reader\<close> is what the remaining reads deliver; \<open>writer\<close> is the list of messages passed
  to \<^verbatim>\<open>_send\<close> so far (each goes on the wire followed by CR LF); \<open>transport\<close> is
  \<^verbatim>\<open>writer._transport\<close>; \<open>writer_closed\<close> says that the writer's transport has been closed,
  by \<^verbatim>\<open>writer.close()\<close> or by a failed handshake (a message passed to \<^verbatim>\<open>_send\<close> after
  that reaches nobody); \<open>email_repo\<close>
  lists the mails this session passed to \<^verbatim>\<open>email_repo.create\<close>, oldest first;
  \<open>tls_attempts\<close> counts the runs of the \<^verbatim>\<open>try\<close> block of \<^verbatim>\<open>_handle_starttls\<close>.
\<close>

record SMTPSession =
  authenticated :: bool
  auth_user :: str
  mail_from :: str
  rcpt_to :: "str list"
  client_ip :: str
  reader :: "read_event list"
  writer :: "str list"
  transport :: transport
  writer_closed :: bool
  email_repo :: "Email list"
  tls_attempts :: nat

text \<open>\<^verbatim>\<open>SMTPSession.__init__\<close>, on a fresh connection whose reads deliver \<open>evs\<close>.\<close>

definition init :: "read_event list \<Rightarrow> SMTPSession" where
  "init evs =
     \<lparr> authenticated = False, auth_user = [], mail_from = [], rcpt_to = [], client_ip = [],
       reader = evs, writer = [], transport = Plaintext, writer_closed = False,
       email_repo = [], tls_attempts = 0 \<rparr>"

text \<open>\<^verbatim>\<open>_send\<close>: a connection error while writing is swallowed, so the call always
  returns.\<close>

definition send :: "str \<Rightarrow> SMTPSession \<Rightarrow> SMTPSession" where
  "send message s = s\<lparr>writer := writer s @ [message]\<rparr>"

definition reset_transaction :: "SMTPSession \<Rightarrow> SMTPSession" where
  "reset_transaction s = s\<lparr>mail_from := [], rcpt_to := []\<rparr>"

section \<open>The DATA read loop\<close>

text \<open>Lines 292 to 294: \<^verbatim>\<open>if line.startswith(b".."): line = line[1:]\<close>.\<close>

definition unstuff :: "bytes \<Rightarrow> bytes" where
  "unstuff line = (if startswith line ''..'' then tl line else line)"

text \<open>Line 289: \<^verbatim>\<open>line in (b".\r\n", b".\n")\<close>.\<close>

definition is_terminator :: "bytes \<Rightarrow> bool" where
  "is_terminator line = (line = [CHR ''.'', CR, LF] \<or> line = [CHR ''.'', LF])"

text \<open>
  The \<^verbatim>\<open>while True\<close> of \<^verbatim>\<open>_handle_data\<close> (lines 278 to 302), as a function of what
  the reads deliver: how the loop ends and what is left to read. At end of input
  \<^verbatim>\<open>readline\<close> returns \<^verbatim>\<open>b""\<close> at once: the empty line is not a terminator, adds 0 to
  \<^verbatim>\<open>total_size\<close> and is appended, and the loop reads again, for ever.
\<close>

datatype body_result =
    BodyDone "bytes list"
  | BodyTimeout
  | BodyRaised exn
  | BodyTooLarge
  | BodyNever

fun data_loop :: "int \<Rightarrow> read_event list \<Rightarrow> bytes list \<Rightarrow> int \<Rightarrow> body_result \<times> read_event list" where
  "data_loop maxb [] data total_size =
     (if total_size > maxb then (BodyTooLarge, []) else (BodyNever, []))"
| "data_loop maxb (Raises e # rest) data total_size =
     (if e = TimeoutError then (BodyTimeout, rest) else (BodyRaised e, rest))"
| "data_loop maxb (Line line # rest) data total_size =
     (if is_terminator line then (BodyDone data, rest)
      else
        let line' = unstuff line;
            total_size' = total_size + int (length line')
        in if total_size' > maxb then (BodyTooLarge, rest)
           else data_loop maxb rest (data @ [line']) total_size')"

section \<open>The command handlers\<close>

text \<open>One awaited \<^verbatim>\<open>readline\<close>: the next event, or \<^verbatim>\<open>b""\<close> at end of input.\<close>

definition readline :: "SMTPSession \<Rightarrow> (exn + bytes) \<times> SMTPSession" where
  "readline s =
     (case reader s of
        [] \<Rightarrow> (Inr [], s)
      | Line b # rest \<Rightarrow> (Inr b, s\<lparr>reader := rest\<rparr>)
      | Raises e # rest \<Rightarrow> (Inl e, s\<lparr>reader := rest\<rparr>))"

text \<open>\<^verbatim>\<open>_handle_ehlo\<close> (also called for HELO).\<close>

definition ehlo_extensions :: "SMTPConfig \<Rightarrow> str list" where
  "ehlo_extensions cfg =
     [''250-'' @ domain cfg @ '' Hello'']
     @ (if required (auth cfg) \<or> username (auth cfg) \<noteq> [] then [''250-AUTH PLAIN LOGIN''] else [])
     @ (if enabled (tls cfg) then [''250-STARTTLS''] else [])
     @ [''250-SIZE '' @ str_of_int (max_message_bytes cfg)]
     @ [''250 OK'']"

definition handle_ehlo :: "SMTPConfig \<Rightarrow> str \<Rightarrow> SMTPSession \<Rightarrow> bool outcome \<times> SMTPSession" where
  "handle_ehlo cfg line s = (Return True, foldl (\<lambda>s' ext. send ext s') s (ehlo_extensions cfg))"

text \<open>Lines 155 to 160: which fields of the decoded blob are the user name and the
  password; \<open>None\<close> is the \<^verbatim>\<open>raise ValueError\<close>.\<close>

definition plain_fields :: "str list \<Rightarrow> (str \<times> str) option" where
  "plain_fields parts =
     (if length parts \<ge> 3 then Some (parts ! 1, parts ! 2)
      else if length parts = 2 then Some (parts ! 0, parts ! 1)
      else None)"

text \<open>Lines 151 to 174 of \<^verbatim>\<open>_handle_auth_plain\<close>: the \<^verbatim>\<open>try\<close> block on the credentials
  and the reply after it. Every exception inside is swallowed.\<close>

definition auth_plain_check :: "env \<Rightarrow> SMTPConfig \<Rightarrow> str \<Rightarrow> SMTPSession \<Rightarrow> bool outcome \<times> SMTPSession" where
  "auth_plain_check E cfg credentials s =
     (let failed = (Return True, send ''535 Authentication failed'' s) in
      case b64decode_str E credentials of
        None \<Rightarrow> failed
      | Some raw \<Rightarrow>
          (case utf8_decode E raw of
             None \<Rightarrow> failed
           | Some decoded \<Rightarrow>
               (case plain_fields (split_on (CHR 0x00) decoded) of
                  None \<Rightarrow> failed
                | Some (username', password') \<Rightarrow>
                    if username' = username (auth cfg) \<and> password' = password (auth cfg)
                    then (Return True,
                          send ''235 Authentication successful''
                            (s\<lparr>authenticated := True, auth_user := username'\<rparr>))
                    else failed)))"

definition handle_auth_plain :: "env \<Rightarrow> SMTPConfig \<Rightarrow> str list \<Rightarrow> SMTPSession \<Rightarrow> bool outcome \<times> SMTPSession" where
  "handle_auth_plain E cfg parts s =
     (if length parts = 3 then auth_plain_check E cfg (parts ! 2) s
      else
        (case readline (send ''334 '' s) of
           (Inl e, s1) \<Rightarrow>
             if e = TimeoutError then (Return False, send ''421 Timeout'' s1)
             else (Raise e, s1)
         | (Inr cred_line, s1) \<Rightarrow>
             (case utf8_decode E cred_line of
                None \<Rightarrow> (Raise UnicodeDecodeError, s1)
              | Some text \<Rightarrow> auth_plain_check E cfg (strip (str_isspace E) text) s1)))"

text \<open>\<^verbatim>\<open>base64.b64decode(line.strip()).decode()\<close> of \<^verbatim>\<open>_handle_auth_login\<close>.\<close>

definition login_decode :: "env \<Rightarrow> bytes \<Rightarrow> str option" where
  "login_decode E line =
     (case b64decode_bytes E (strip bytes_isspace line) of
        None \<Rightarrow> None
      | Some raw \<Rightarrow> utf8_decode E raw)"

text \<open>\<^verbatim>\<open>_handle_auth_login\<close>: the whole body is inside \<^verbatim>\<open>try ... except Exception: pass\<close>,
  so whatever a read raises, \<^verbatim>\<open>asyncio.TimeoutError\<close> included, ends in the reply 535.\<close>

definition handle_auth_login :: "env \<Rightarrow> SMTPConfig \<Rightarrow> SMTPSession \<Rightarrow> bool outcome \<times> SMTPSession" where
  "handle_auth_login E cfg s =
     (case readline (send ''334 VXNlcm5hbWU6'' s) of
        (Inl e, s1) \<Rightarrow> (Return True, send ''535 Authentication failed'' s1)
      | (Inr username_line, s1) \<Rightarrow>
          (case login_decode E username_line of
             None \<Rightarrow> (Return True, send ''535 Authentication failed'' s1)
           | Some username' \<Rightarrow>
               (case readline (send ''334 UGFzc3dvcmQ6'' s1) of
                  (Inl e, s2) \<Rightarrow> (Return True, send ''535 Authentication failed'' s2)
                | (Inr password_line, s2) \<Rightarrow>
                    (case login_decode E password_line of
                       None \<Rightarrow> (Return True, send ''535 Authentication failed'' s2)
                     | Some password' \<Rightarrow>
                         if username' = username (auth cfg) \<and> password' = password (auth cfg)
                         then (Return True,
                               send ''235 Authentication successful''
                                 (s2\<lparr>authenticated := True, auth_user := username'\<rparr>))
                         else (Return True, send ''535 Authentication failed'' s2)))))"

definition handle_auth :: "env \<Rightarrow> SMTPConfig \<Rightarrow> str \<Rightarrow> SMTPSession \<Rightarrow> bool outcome \<times> SMTPSession" where
  "handle_auth E cfg line s =
     (let parts = str_split (str_isspace E) line in
      if length parts < 2 then (Return True, send ''501 Syntax error'' s)
      else
        let mechanism = str_upper E (parts ! 1) in
        if mechanism \<noteq> ''PLAIN'' \<and> mechanism \<noteq> ''LOGIN''
        then (Return True, send ''504 Unsupported authentication mechanism'' s)
        else if mechanism = ''PLAIN'' then handle_auth_plain E cfg parts s
        else handle_auth_login E cfg s)"

text \<open>\<^verbatim>\<open>addr[1:-1]\<close> when the address is wrapped in angle brackets.\<close>

definition strip_brackets :: "str \<Rightarrow> str" where
  "strip_brackets addr =
     (if startswith addr ''<'' \<and> endswith addr ''>'' then butlast (tl addr) else addr)"

text \<open>\<^verbatim>\<open>_handle_mail\<close>. \<^verbatim>\<open>addr.split()[0]\<close> raises IndexError on an empty list.\<close>

definition handle_mail :: "env \<Rightarrow> SMTPConfig \<Rightarrow> str \<Rightarrow> SMTPSession \<Rightarrow> bool outcome \<times> SMTPSession" where
  "handle_mail E cfg line s =
     (if required (auth cfg) \<and> \<not> authenticated s
      then (Return True, send ''530 Authentication required'' s)
      else
        let upper_line = str_upper E line in
        case str_find upper_line ''FROM:'' of
          None \<Rightarrow> (Return True, send ''501 Syntax error'' s)
        | Some idx \<Rightarrow>
            let addr = strip (str_isspace E) (drop (idx + 5) line) in
            if CHR '' '' \<in> set addr
            then (case str_split (str_isspace E) addr of
                    [] \<Rightarrow> (Raise IndexError, s)
                  | a # _ \<Rightarrow> (Return True, send ''250 OK'' (s\<lparr>mail_from := strip_brackets a\<rparr>)))
            else (Return True, send ''250 OK'' (s\<lparr>mail_from := strip_brackets addr\<rparr>)))"

definition handle_rcpt :: "env \<Rightarrow> SMTPConfig \<Rightarrow> str \<Rightarrow> SMTPSession \<Rightarrow> bool outcome \<times> SMTPSession" where
  "handle_rcpt E cfg line s =
     (if required (auth cfg) \<and> \<not> authenticated s
      then (Return True, send ''530 Authentication required'' s)
      else if int (length (rcpt_to s)) \<ge> max_recipients cfg
      then (Return True, send ''452 Too many recipients'' s)
      else
        let upper_line = str_upper E line in
        case str_find upper_line ''TO:'' of
          None \<Rightarrow> (Return True, send ''501 Syntax error'' s)
        | Some idx \<Rightarrow>
            let addr = strip (str_isspace E) (drop (idx + 3) line) in
            (Return True, send ''250 OK'' (s\<lparr>rcpt_to := rcpt_to s @ [strip_brackets addr]\<rparr>)))"

text \<open>Lines 304 to 347: the \<^verbatim>\<open>Email\<close> built from the accumulated lines. \<^verbatim>\<open>id\<close> keeps
  the dataclass default 0.\<close>

definition make_email :: "env \<Rightarrow> SMTPSession \<Rightarrow> bytes list \<Rightarrow> Email" where
  "make_email E s data =
     (let raw = concat data; (subject', body') = parse_message E raw in
      \<lparr> email_id = 0, sender = mail_from s, recipients = rcpt_to s, subject = subject',
        body = body', raw_message = raw, size_bytes = int (length raw),
        received_at = now E (length (email_repo s)), status = ''received'',
        email_auth_user = auth_user s, email_client_ip = client_ip s \<rparr>)"

text \<open>\<^verbatim>\<open>_handle_data\<close>. An exception of \<^verbatim>\<open>email_repo.create\<close> is not caught here.\<close>

definition handle_data :: "env \<Rightarrow> SMTPConfig \<Rightarrow> SMTPSession \<Rightarrow> bool outcome \<times> SMTPSession" where
  "handle_data E cfg s =
     (if required (auth cfg) \<and> \<not> authenticated s
      then (Return True, send ''530 Authentication required'' s)
      else if mail_from s = [] \<or> rcpt_to s = []
      then (Return True, send ''503 Bad sequence of commands'' s)
      else
        let s1 = send ''354 Start mail input; end with <CRLF>.<CRLF>'' s in
        case data_loop (max_message_bytes cfg) (reader s1) [] 0 of
          (BodyTimeout, rest) \<Rightarrow> (Return False, send ''421 Timeout'' (s1\<lparr>reader := rest\<rparr>))
        | (BodyRaised e, rest) \<Rightarrow> (Raise e, s1\<lparr>reader := rest\<rparr>)
        | (BodyNever, rest) \<Rightarrow> (Diverge, s1\<lparr>reader := rest\<rparr>)
        | (BodyTooLarge, rest) \<Rightarrow>
            (Return True, reset_transaction (send ''552 Message too large'' (s1\<lparr>reader := rest\<rparr>)))
        | (BodyDone data, rest) \<Rightarrow>
            let s2 = s1\<lparr>reader := rest, email_repo := email_repo s1 @ [make_email E s1 data]\<rparr> in
            if create_raises E (length (email_repo s1)) then (Raise DatabaseError, s2)
            else (Return True, reset_transaction (send ''250 OK: Message accepted'' s2)))"

definition handle_rset :: "SMTPSession \<Rightarrow> bool outcome \<times> SMTPSession" where
  "handle_rset s = (Return True, send ''250 OK'' (reset_transaction s))"

text \<open>What is left to read once the transport is closed: the lines of the client are
  lost; a read can still raise (the exception the lost connection left in the reader),
  and after that the reader is at the end of input.\<close>

definition is_raise :: "read_event \<Rightarrow> bool" where
  "is_raise ev = (case ev of Line b \<Rightarrow> False | Raises e \<Rightarrow> True)"

definition closed_reads :: "read_event list \<Rightarrow> read_event list" where
  "closed_reads evs = filter is_raise evs"

text \<open>\<^verbatim>\<open>_handle_starttls\<close>: the state is reset after \<^verbatim>\<open>loop.start_tls\<close> has returned;
  any exception of the \<^verbatim>\<open>try\<close> block is answered with 454 and the handler returns
  \<open>True\<close>. When the handshake has failed the transport is closed by then: the 454 is
  passed to \<^verbatim>\<open>_send\<close> all the same, and no line of the client is read any more.\<close>

definition handle_starttls :: "env \<Rightarrow> SMTPConfig \<Rightarrow> SMTPSession \<Rightarrow> bool outcome \<times> SMTPSession" where
  "handle_starttls E cfg s =
     (if \<not> enabled (tls cfg) then (Return True, send ''502 STARTTLS not available'' s)
      else
        let s1 = send ''220 Ready to start TLS'' s;
            s2 = s1\<lparr>tls_attempts := Suc (tls_attempts s1)\<rparr>
        in case start_tls E (tls_attempts s1) of
             Upgraded \<Rightarrow>
               (Return True,
                reset_transaction (s2\<lparr>transport := TLSWrapped, authenticated := False, auth_user := []\<rparr>))
           | SetupFailed e \<Rightarrow> (Return True, send (''454 TLS not available: '' @ e) s2)
           | HandshakeFailed e \<Rightarrow>
               (Return True,
                send (''454 TLS not available: '' @ e)
                  (s2\<lparr>reader := closed_reads (reader s2), writer_closed := True\<rparr>)))"

text \<open>Lines 74 and 75 of \<^verbatim>\<open>_process_command\<close>:
  \<^verbatim>\<open>parts = line.split(None, 1); cmd = parts[0].upper() if parts else ""\<close>.\<close>

definition command_word :: "env \<Rightarrow> str \<Rightarrow> str" where
  "command_word E line =
     (case split_maxsplit1 (str_isspace E) line of
        [] \<Rightarrow> []
      | p # _ \<Rightarrow> str_upper E p)"

text \<open>\<^verbatim>\<open>_process_command\<close>.\<close>

definition process_command :: "env \<Rightarrow> SMTPConfig \<Rightarrow> str \<Rightarrow> SMTPSession \<Rightarrow> bool outcome \<times> SMTPSession" where
  "process_command E cfg line s =
     (let cmd = command_word E line
      in if cmd = ''EHLO'' \<or> cmd = ''HELO'' then handle_ehlo cfg line s
         else if cmd = ''AUTH'' then handle_auth E cfg line s
         else if cmd = ''MAIL'' then handle_mail E cfg line s
         else if cmd = ''RCPT'' then handle_rcpt E cfg line s
         else if cmd = ''DATA'' then handle_data E cfg s
         else if cmd = ''RSET'' then handle_rset s
         else if cmd = ''QUIT'' then (Return False, send ''221 Bye'' s)
         else if cmd = ''NOOP'' then (Return True, send ''250 OK'' s)
         else if cmd = ''STARTTLS'' then handle_starttls E cfg s
         else (Return True, send ''500 Unknown command'' s))"

section \<open>The command loop\<close>

subsection \<open>No handler gives input back\<close>

text \<open>Every handler leaves the reader with at most the events it found: the measure of
  the command loop.\<close>


lemma data_loop_reader_le: "length (snd (data_loop maxb evs data t)) \<le> length evs"
proof (induction maxb evs data t rule: data_loop.induct)
  case (3 maxb line rest data total_size)
  then show ?case by (auto simp: Let_def le_SucI)
qed auto

lemma reader_send [simp]: "reader (send m s) = reader s"
  by (simp add: send_def)

lemma reader_reset_transaction [simp]: "reader (reset_transaction s) = reader s"
  by (simp add: reset_transaction_def)

lemma readline_reader_le: "length (reader (snd (readline s))) \<le> length (reader s)"
  by (auto simp: readline_def split: list.splits read_event.splits)

lemma readline_reader_less:
  "readline s = (Inr line, s1) \<Longrightarrow> line \<noteq> [] \<Longrightarrow> length (reader s1) < length (reader s)"
  by (auto simp: readline_def split: list.splits read_event.splits)

lemma readline_reader_le':
  "readline s = (r, s1) \<Longrightarrow> length (reader s1) \<le> length (reader s)"
  using readline_reader_le [of s] by simp

lemma reader_foldl_send [simp]: "reader (foldl (\<lambda>s' ext. send ext s') s exts) = reader s"
  by (induction exts arbitrary: s) auto

lemma handle_ehlo_reader [simp]: "reader (snd (handle_ehlo cfg line s)) = reader s"
  by (simp add: handle_ehlo_def)

lemma auth_plain_check_reader [simp]: "reader (snd (auth_plain_check E cfg c s)) = reader s"
  by (auto simp: auth_plain_check_def Let_def split: option.splits)

lemma handle_auth_plain_reader_le:
  "length (reader (snd (handle_auth_plain E cfg parts s))) \<le> length (reader s)"
  using readline_reader_le [of "send ''334 '' s"]
  by (auto simp: handle_auth_plain_def split: prod.splits sum.splits option.splits)

lemma handle_auth_login_reader_le:
  "length (reader (snd (handle_auth_login E cfg s))) \<le> length (reader s)"
proof -
  have a: "\<And>r s1. readline (send ''334 VXNlcm5hbWU6'' s) = (r, s1) \<Longrightarrow> length (reader s1) \<le> length (reader s)"
    using readline_reader_le' by fastforce
  have b: "\<And>r s1 s2. readline (send ''334 UGFzc3dvcmQ6'' s1) = (r, s2) \<Longrightarrow> length (reader s2) \<le> length (reader s1)"
    using readline_reader_le' by fastforce
  show ?thesis
    unfolding handle_auth_login_def
    by (auto split: prod.splits sum.splits option.splits dest: a b dest!: b intro: order_trans)
qed


lemma handle_auth_reader_le:
  "length (reader (snd (handle_auth E cfg line s))) \<le> length (reader s)"
  using handle_auth_plain_reader_le handle_auth_login_reader_le
  by (simp add: handle_auth_def Let_def)

lemma handle_mail_reader [simp]: "reader (snd (handle_mail E cfg line s)) = reader s"
  by (simp add: handle_mail_def Let_def split: option.splits list.splits)

lemma handle_rcpt_reader [simp]: "reader (snd (handle_rcpt E cfg line s)) = reader s"
  by (simp add: handle_rcpt_def Let_def split: option.splits)

lemma handle_rset_reader [simp]: "reader (snd (handle_rset s)) = reader s"
  by (simp add: handle_rset_def)

lemma handle_starttls_reader_le:
  "length (reader (snd (handle_starttls E cfg s))) \<le> length (reader s)"
  by (simp add: handle_starttls_def Let_def closed_reads_def split: tls_outcome.splits)

lemma handle_data_reader_le:
  "length (reader (snd (handle_data E cfg s))) \<le> length (reader s)"
  using data_loop_reader_le [of "max_message_bytes cfg" "reader s" "[]" 0]
  by (auto simp: handle_data_def Let_def split: prod.splits body_result.splits)

lemma process_command_reader_le:
  "length (reader (snd (process_command E cfg line s))) \<le> length (reader s)"
  using handle_auth_reader_le handle_data_reader_le handle_starttls_reader_le
  by (simp add: process_command_def Let_def)

subsection \<open>The loop of \<^verbatim>\<open>handle\<close>\<close>

text \<open>
  Lines 45 to 62. An empty read is the end of input and leaves the loop; a line that is
  blank after decoding and stripping is skipped; a handler that returns \<open>False\<close> leaves
  the loop. \<^verbatim>\<open>asyncio.TimeoutError\<close> from the read, or out of a handler, is answered
  with 421 and leaves the loop; any other exception leaves \<^verbatim>\<open>handle\<close> through its outer
  \<^verbatim>\<open>try\<close>.
\<close>

function handle_loop :: "env \<Rightarrow> SMTPConfig \<Rightarrow> SMTPSession \<Rightarrow> unit outcome \<times> SMTPSession" where
  "handle_loop E cfg s =
     (case readline s of
        (Inl e, s1) \<Rightarrow>
          if e = TimeoutError then (Return (), send ''421 Timeout'' s1) else (Raise e, s1)
      | (Inr line, s1) \<Rightarrow>
          if line = [] then (Return (), s1)
          else
            let command = strip (str_isspace E) (utf8_decode_replace E line) in
            if command = [] then handle_loop E cfg s1
            else
              (case process_command E cfg command s1 of
                 (Return continue, s2) \<Rightarrow>
                   if continue then handle_loop E cfg s2 else (Return (), s2)
               | (Raise e, s2) \<Rightarrow>
                   if e = TimeoutError then (Return (), send ''421 Timeout'' s2) else (Raise e, s2)
               | (Diverge, s2) \<Rightarrow> (Diverge, s2)))"
  by pat_completeness auto
termination
proof (relation "measure (\<lambda>(E, cfg, s). length (reader s))", goal_cases)
  case 1
  show ?case by simp
next
  case (2 E cfg s x y x2 command)
  then show ?case using readline_reader_less [of s x2 y] by simp
next
  case (3 E cfg s x y x2 command r s2 continue)
  have "length (reader s2) \<le> length (reader y)"
    using process_command_reader_le [of E cfg command y] 3 by (metis snd_conv)
  moreover have "length (reader y) < length (reader s)"
    using 3 readline_reader_less [of s x2 y] by simp
  ultimately show ?case by simp
qed

declare handle_loop.simps [simp del]

text \<open>\<^verbatim>\<open>handle\<close>: the peer address, the greeting, the loop; the outer \<^verbatim>\<open>try\<close> swallows a
  broken connection, and \<^verbatim>\<open>finally\<close> closes the writer.\<close>

definition handle :: "env \<Rightarrow> SMTPConfig \<Rightarrow> SMTPSession \<Rightarrow> unit outcome \<times> SMTPSession" where
  "handle E cfg s =
     (let s1 = s\<lparr>client_ip := (case peername E of None \<Rightarrow> ''unknown'' | Some h \<Rightarrow> h)\<rparr>;
          s2 = send (''220 '' @ domain cfg @ '' SMTP Ready'') s1;
          (r, s3) = handle_loop E cfg s2;
          s4 = s3\<lparr>writer_closed := True\<rparr>
      in case r of
           Return u \<Rightarrow> (Return (), s4)
         | Raise e \<Rightarrow>
             if e = ConnectionResetError \<or> e = BrokenPipeError then (Return (), s4)
             else (Raise e, s4)
         | Diverge \<Rightarrow> (Diverge, s3))"

section \<open>A runtime for ASCII connections\<close>

text \<open>
  To run the model on concrete input the runtime has to be concrete too. \<open>ascii_env\<close> is
  CPython restricted to connections that carry ASCII only, which is all the examples
  below send: decoding is the identity there, \<^verbatim>\<open>upper\<close> maps a to z onto A to Z, and
  base64 is decoded as \<^verbatim>\<open>binascii.a2b_base64\<close> does without \<^verbatim>\<open>strict_mode\<close>
  (characters outside the alphabet are skipped, the padding must complete the last
  group of four).
\<close>

definition is_ascii :: "char \<Rightarrow> bool" where
  "is_ascii c = (\<not> digit7 c)"

definition ascii_upper :: "str \<Rightarrow> str" where
  "ascii_upper s =
     map (\<lambda>c. case map_of (zip ''abcdefghijklmnopqrstuvwxyz'' ''ABCDEFGHIJKLMNOPQRSTUVWXYZ'') c of
                 None \<Rightarrow> c
               | Some u \<Rightarrow> u) s"

definition ascii_isspace :: "char \<Rightarrow> bool" where
  "ascii_isspace c =
     (bytes_isspace c \<or> c = CHR 0x1C \<or> c = CHR 0x1D \<or> c = CHR 0x1E \<or> c = CHR 0x1F)"

definition ascii_decode :: "bytes \<Rightarrow> str option" where
  "ascii_decode b = (if list_all is_ascii b then Some b else None)"

definition ascii_decode_replace :: "bytes \<Rightarrow> str" where
  "ascii_decode_replace b = map (\<lambda>c. if is_ascii c then c else CHR ''?'') b"

fun index_of :: "'a \<Rightarrow> 'a list \<Rightarrow> nat option" where
  "index_of x [] = None"
| "index_of x (y # ys) = (if x = y then Some 0 else map_option Suc (index_of x ys))"

definition b64_value :: "char \<Rightarrow> nat option" where
  "b64_value c =
     index_of c ''ABCDEFGHIJKLMNOPQRSTUVWXYZabcdefghijklmnopqrstuvwxyz0123456789+/''"

text \<open>The decoding loop: \<open>quad_pos\<close> is the position in the group of four, \<open>leftchar\<close>
  the bits not yet written, \<open>pads\<close> the padding characters seen in a row.\<close>

fun a2b_base64 :: "string \<Rightarrow> nat \<Rightarrow> nat \<Rightarrow> nat \<Rightarrow> bytes \<Rightarrow> bytes option" where
  "a2b_base64 [] quad_pos leftchar pads out = (if quad_pos \<noteq> 0 then None else Some out)"
| "a2b_base64 (c # cs) quad_pos leftchar pads out =
     (if c = CHR ''='' then
        (if quad_pos \<ge> 2 \<and> quad_pos + (pads + 1) \<ge> 4 then Some out
         else a2b_base64 cs quad_pos leftchar (if quad_pos \<ge> 2 then pads + 1 else pads) out)
      else
        (case b64_value c of
           None \<Rightarrow> a2b_base64 cs quad_pos leftchar pads out
         | Some v \<Rightarrow>
             if quad_pos = 0 then a2b_base64 cs 1 v 0 out
             else if quad_pos = 1
             then a2b_base64 cs 2 (v mod 16) 0 (out @ [char_of (leftchar * 4 + v div 16)])
             else if quad_pos = 2
             then a2b_base64 cs 3 (v mod 4) 0 (out @ [char_of (leftchar * 16 + v div 4)])
             else a2b_base64 cs 0 0 0 (out @ [char_of (leftchar * 64 + v)])))"

definition ascii_b64decode :: "string \<Rightarrow> bytes option" where
  "ascii_b64decode s = (if list_all is_ascii s then a2b_base64 s 0 0 0 [] else None)"

text \<open>\<^verbatim>\<open>base64.b64decode\<close> of \<^verbatim>\<open>bytes\<close> takes any byte and skips what is not in the
  alphabet.\<close>

definition a2b_base64_bytes :: "bytes \<Rightarrow> bytes option" where
  "a2b_base64_bytes b = a2b_base64 b 0 0 0 []"

text \<open>The connection comes from 127.0.0.1, every TLS upgrade succeeds, the clock counts
  the mails of the session, and the store never fails. A message without header lines
  has no subject and is its own body.\<close>

definition ascii_env :: env where
  "ascii_env =
     \<lparr> utf8_decode_replace = ascii_decode_replace,
       utf8_decode = ascii_decode,
       str_upper = ascii_upper,
       str_isspace = ascii_isspace,
       b64decode_str = ascii_b64decode,
       b64decode_bytes = a2b_base64_bytes,
       parse_message = (\<lambda>raw. ([], raw)),
       peername = Some ''127.0.0.1'',
       start_tls = (\<lambda>k. Upgraded),
       now = (\<lambda>k. k),
       create_raises = (\<lambda>k. False) \<rparr>"

subsection \<open>Configurations and inputs of the examples\<close>

text \<open>\<^verbatim>\<open>SMTPConfig()\<close>: the defaults of \<^verbatim>\<open>config.py\<close>.\<close>

definition default_config :: SMTPConfig where
  "default_config =
     \<lparr> host = ''0.0.0.0'', port = 2525, domain = ''localhost'',
       read_timeout_seconds = 10, write_timeout_seconds = 10,
       max_message_bytes = 10485760, max_recipients = 50, allow_insecure_auth = True,
       tls = \<lparr> enabled = False, cert_file = ''certs/server.crt'', key_file = ''certs/server.key'' \<rparr>,
       auth = \<lparr> required = True, username = ''mailuser'', password = ''mailpass'' \<rparr> \<rparr>"

text \<open>The defaults with \<^verbatim>\<open>auth.required = false\<close>.\<close>

definition open_config :: SMTPConfig where
  "open_config = default_config\<lparr>auth := (auth default_config)\<lparr>required := False\<rparr>\<rparr>"

text \<open>The configuration of the scenarios: authentication required, user
  \<^verbatim>\<open>alice\<close> with password \<^verbatim>\<open>s3cret\<close>.\<close>

definition alice_config :: SMTPConfig where
  "alice_config =
     default_config\<lparr>auth := \<lparr> required = True, username = ''alice'', password = ''s3cret'' \<rparr>\<rparr>"

text \<open>The same with STARTTLS enabled, and the open configuration with STARTTLS enabled.\<close>

definition alice_tls_config :: SMTPConfig where
  "alice_tls_config = alice_config\<lparr>tls := (tls alice_config)\<lparr>enabled := True\<rparr>\<rparr>"

definition open_tls_config :: SMTPConfig where
  "open_tls_config = open_config\<lparr>tls := (tls open_config)\<lparr>enabled := True\<rparr>\<rparr>"

text \<open>A command or body line as the client sends it: the text and CR LF.\<close>

definition crlf :: "string \<Rightarrow> read_event" where
  "crlf l = Line (l @ [CR, LF])"

text \<open>A session in which \<^verbatim>\<open>MAIL FROM:<a@x>\<close> and \<^verbatim>\<open>RCPT TO:<b@y>\<close> have been
  accepted and the reads deliver \<open>evs\<close>.\<close>

definition in_transaction :: "read_event list \<Rightarrow> SMTPSession" where
  "in_transaction evs = (init evs)\<lparr>mail_from := ''a@x'', rcpt_to := [''b@y'']\<rparr>"

subsection \<open>The invariant of the session\<close>

text \<open>The invariant of the session: the recipients collected so far are within the
  limit (or there are none), and every mail handed to the store has a sender, at least
  one recipient and at most \<open>max_recipients\<close>.\<close>

definition session_inv :: "SMTPConfig \<Rightarrow> SMTPSession \<Rightarrow> bool" where
  "session_inv cfg s =
     ((rcpt_to s = [] \<or> int (length (rcpt_to s)) \<le> max_recipients cfg)
      \<and> (\<forall>e\<in>set (email_repo s).
            1 \<le> length (recipients e) \<and> int (length (recipients e)) \<le> max_recipients cfg
            \<and> sender e \<noteq> []))"

section \<open>The DATA body: dot lines and the size limit\<close>

text \<open>A body of lines none of which is the terminator, then the terminator: the loop
  ends with the unstuffed lines as long as their total length is within the limit.\<close>

lemma data_loop_accept:
  "\<forall>l\<in>set ls. \<not> is_terminator l \<Longrightarrow> is_terminator t \<Longrightarrow>
   tot + int (length (concat (map unstuff ls))) \<le> maxb \<Longrightarrow>
   data_loop maxb (map Line ls @ Line t # rest) data tot = (BodyDone (data @ map unstuff ls), rest)"
proof (induction ls arbitrary: data tot)
  case Nil
  then show ?case by simp
next
  case (Cons l ls)
  have le: "tot + int (length (unstuff l)) \<le> maxb"
    using Cons.prems(3) by simp
  have "data_loop maxb (map Line ls @ Line t # rest) (data @ [unstuff l]) (tot + int (length (unstuff l)))
        = (BodyDone ((data @ [unstuff l]) @ map unstuff ls), rest)"
    using Cons.prems by (intro Cons.IH) (simp_all add: add.assoc)
  then show ?case using Cons.prems(1) le by (simp add: Let_def)
qed


lemma handle_data_accept:
  assumes "required (auth cfg) \<longrightarrow> authenticated s" and "mail_from s \<noteq> []" and "rcpt_to s \<noteq> []"
    and "reader s = map Line ls @ Line t # rest" and "is_terminator t"
    and "\<forall>l\<in>set ls. \<not> is_terminator l"
    and "int (length (concat (map unstuff ls))) \<le> max_message_bytes cfg"
  shows "handle_data E cfg s =
     (let s1 = send ''354 Start mail input; end with <CRLF>.<CRLF>'' s;
          s2 = s1\<lparr>reader := rest, email_repo := email_repo s @ [make_email E s1 (map unstuff ls)]\<rparr>
      in if create_raises E (length (email_repo s)) then (Raise DatabaseError, s2)
         else (Return True, reset_transaction (send ''250 OK: Message accepted'' s2)))"
proof -
  have "data_loop (max_message_bytes cfg) (map Line ls @ Line t # rest) [] 0 = (BodyDone ([] @ map unstuff ls), rest)"
    using assms by (intro data_loop_accept) simp_all
  moreover have "\<not> (required (auth cfg) \<and> \<not> authenticated s)"
    using assms(1) by blast
  ultimately show ?thesis using assms(2-5) by (auto simp: handle_data_def Let_def send_def)
qed


text \<open>
  C1 (as amended). Only a line that starts with two dots loses a byte: it loses exactly
  its first dot. Every other line that is not the terminator is appended as received,
  also when its first byte is a dot followed by another byte. A body of such lines that
  stays within the size limit ends in one mail whose \<open>raw_message\<close> is the
  concatenation of the unstuffed lines and whose \<open>size_bytes\<close> is its length.
\<close>

theorem C1_dot_unstuffing:
  assumes "required (auth cfg) \<longrightarrow> authenticated s"
    and "mail_from s \<noteq> []" and "rcpt_to s \<noteq> []"
    and "reader s = map Line ls @ Line t # rest"
    and "is_terminator t" and "\<forall>l\<in>set ls. \<not> is_terminator l"
    and "int (length (concat (map unstuff ls))) \<le> max_message_bytes cfg"
  shows "map raw_message (email_repo (snd (handle_data E cfg s)))
           = map raw_message (email_repo s) @ [concat (map unstuff ls)]
       \<and> map size_bytes (email_repo (snd (handle_data E cfg s)))
           = map size_bytes (email_repo s) @ [int (length (concat (map unstuff ls)))]
       \<and> (\<forall>xs. unstuff (CHR ''.'' # CHR ''.'' # xs) = CHR ''.'' # xs)
       \<and> (\<forall>c xs. c \<noteq> CHR ''.'' \<longrightarrow> unstuff (CHR ''.'' # c # xs) = CHR ''.'' # c # xs)
       \<and> (\<forall>l. \<not> startswith l ''..'' \<longrightarrow> unstuff l = l)"
proof -
  have "email_repo (snd (handle_data E cfg s))
        = email_repo s @ [make_email E (send ''354 Start mail input; end with <CRLF>.<CRLF>'' s) (map unstuff ls)]"
    using handle_data_accept [OF assms, of E]
    by (simp add: Let_def reset_transaction_def send_def)
  moreover have "raw_message (make_email E s' d) = concat d" for s' d
    by (simp add: make_email_def Let_def split: prod.splits)
  moreover have "size_bytes (make_email E s' d) = int (length (concat d))" for s' d
    by (simp add: make_email_def Let_def split: prod.splits)
  ultimately show ?thesis
    by (simp add: unstuff_def startswith_def)
qed

theorem C1_dot_unstuffing_witness:
  "map raw_message (email_repo (snd (handle_data ascii_env open_config
       (in_transaction [crlf ''.hello'', crlf ''..world'', crlf ''.'', crlf ''QUIT'']))))
     = [''.hello'' @ [CR, LF] @ ''.world'' @ [CR, LF]]
   \<and> map size_bytes (email_repo (snd (handle_data ascii_env open_config
       (in_transaction [crlf ''.hello'', crlf ''..world'', crlf ''.'', crlf ''QUIT'']))))
     = [16]"
proof -
  let ?s = "in_transaction [crlf ''.hello'', crlf ''..world'', crlf ''.'', crlf ''QUIT'']"
  let ?ls = "[''.hello'' @ [CR, LF], ''..world'' @ [CR, LF]]"
  have 1: "required (auth open_config) \<longrightarrow> authenticated ?s" by code_simp
  have 2: "mail_from ?s \<noteq> []" by code_simp
  have 3: "rcpt_to ?s \<noteq> []" by code_simp
  have 4: "reader ?s = map Line ?ls @ Line (''.'' @ [CR, LF]) # [crlf ''QUIT'']" by code_simp
  have 5: "is_terminator (''.'' @ [CR, LF])" by code_simp
  have 6: "\<forall>l\<in>set ?ls. \<not> is_terminator l" by code_simp
  have 7: "int (length (concat (map unstuff ?ls))) \<le> max_message_bytes open_config" by code_simp
  have 8: "concat (map unstuff ?ls) = ''.hello'' @ [CR, LF] @ ''.world'' @ [CR, LF]" by code_simp
  have 9: "email_repo ?s = []" by code_simp
  show ?thesis
    using C1_dot_unstuffing [OF 1 2 3 4 5 6 7, of ascii_env] unfolding 8 9 by simp
qed

theorem C1_counterexample:
  "map raw_message (email_repo (snd (handle ascii_env open_config
       (init [crlf ''MAIL FROM:<a@x>'', crlf ''RCPT TO:<b@y>'', crlf ''DATA'',
              crlf ''.hello'', crlf ''..world'', crlf ''.'', crlf ''QUIT'']))))
     = [''.hello'' @ [CR, LF] @ ''.world'' @ [CR, LF]]
   \<and> map raw_message (email_repo (snd (handle ascii_env open_config
       (init [crlf ''MAIL FROM:<a@x>'', crlf ''RCPT TO:<b@y>'', crlf ''DATA'',
              crlf ''.hello'', crlf ''..world'', crlf ''.'', crlf ''QUIT'']))))
     \<noteq> [''hello'' @ [CR, LF] @ ''.world'' @ [CR, LF]]
   \<and> map size_bytes (email_repo (snd (handle ascii_env open_config
       (init [crlf ''MAIL FROM:<a@x>'', crlf ''RCPT TO:<b@y>'', crlf ''DATA'',
              crlf ''.hello'', crlf ''..world'', crlf ''.'', crlf ''QUIT'']))))
     = [16]"
  by code_simp

lemma make_email_send [simp]: "make_email E (send m s) d = make_email E s d"
  by (simp add: make_email_def send_def)

lemma make_email_writer_update [simp]: "make_email E (s\<lparr>writer := w\<rparr>) d = make_email E s d"
  by (simp add: make_email_def)




section \<open>RSET, MAIL and the transaction fields\<close>

text \<open>
  C7. RSET, and DATA when it commits a mail (the handler returns \<open>True\<close> and the store
  has received a mail), leave \<open>mail_from\<close> empty and \<open>rcpt_to\<close> empty, and leave
  \<open>authenticated\<close>, \<open>auth_user\<close> and \<open>client_ip\<close> as they were before the command.
\<close>

theorem C7_reset_keeps_identity:
  "mail_from (snd (handle_rset s)) = [] \<and> rcpt_to (snd (handle_rset s)) = []
   \<and> authenticated (snd (handle_rset s)) = authenticated s
   \<and> auth_user (snd (handle_rset s)) = auth_user s
   \<and> client_ip (snd (handle_rset s)) = client_ip s
   \<and> (fst (handle_data E cfg s) = Return True
        \<and> email_repo (snd (handle_data E cfg s)) \<noteq> email_repo s \<longrightarrow>
        mail_from (snd (handle_data E cfg s)) = [] \<and> rcpt_to (snd (handle_data E cfg s)) = []
        \<and> authenticated (snd (handle_data E cfg s)) = authenticated s
        \<and> auth_user (snd (handle_data E cfg s)) = auth_user s
        \<and> client_ip (snd (handle_data E cfg s)) = client_ip s)"
proof -
  have rset: "mail_from (snd (handle_rset s)) = [] \<and> rcpt_to (snd (handle_rset s)) = []
      \<and> authenticated (snd (handle_rset s)) = authenticated s
      \<and> auth_user (snd (handle_rset s)) = auth_user s
      \<and> client_ip (snd (handle_rset s)) = client_ip s"
    by (simp add: handle_rset_def reset_transaction_def send_def)
  have data: "mail_from (snd (handle_data E cfg s)) = [] \<and> rcpt_to (snd (handle_data E cfg s)) = []
        \<and> authenticated (snd (handle_data E cfg s)) = authenticated s
        \<and> auth_user (snd (handle_data E cfg s)) = auth_user s
        \<and> client_ip (snd (handle_data E cfg s)) = client_ip s"
    if "fst (handle_data E cfg s) = Return True"
      and "email_repo (snd (handle_data E cfg s)) \<noteq> email_repo s"
    using that
    by (auto simp: handle_data_def Let_def reset_transaction_def send_def
        split: if_splits prod.splits body_result.splits)
  from rset data show ?thesis by blast
qed

theorem C7_reset_keeps_identity_witness:
  "fst (handle_data ascii_env alice_config
          ((in_transaction [crlf ''hello'', crlf ''.''])
             \<lparr>authenticated := True, auth_user := ''alice'', client_ip := ''127.0.0.1''\<rparr>))
     = Return True
   \<and> length (email_repo (snd (handle_data ascii_env alice_config
          ((in_transaction [crlf ''hello'', crlf ''.''])
             \<lparr>authenticated := True, auth_user := ''alice'', client_ip := ''127.0.0.1''\<rparr>)))) = 1
   \<and> mail_from (snd (handle_data ascii_env alice_config
          ((in_transaction [crlf ''hello'', crlf ''.''])
             \<lparr>authenticated := True, auth_user := ''alice'', client_ip := ''127.0.0.1''\<rparr>))) = []
   \<and> rcpt_to (snd (handle_data ascii_env alice_config
          ((in_transaction [crlf ''hello'', crlf ''.''])
             \<lparr>authenticated := True, auth_user := ''alice'', client_ip := ''127.0.0.1''\<rparr>))) = []
   \<and> authenticated (snd (handle_data ascii_env alice_config
          ((in_transaction [crlf ''hello'', crlf ''.''])
             \<lparr>authenticated := True, auth_user := ''alice'', client_ip := ''127.0.0.1''\<rparr>)))
   \<and> auth_user (snd (handle_data ascii_env alice_config
          ((in_transaction [crlf ''hello'', crlf ''.''])
             \<lparr>authenticated := True, auth_user := ''alice'', client_ip := ''127.0.0.1''\<rparr>))) = ''alice''
   \<and> client_ip (snd (handle_data ascii_env alice_config
          ((in_transaction [crlf ''hello'', crlf ''.''])
             \<lparr>authenticated := True, auth_user := ''alice'', client_ip := ''127.0.0.1''\<rparr>))) = ''127.0.0.1''"
proof -
  let ?s = "(in_transaction [crlf ''hello'', crlf ''.''])
             \<lparr>authenticated := True, auth_user := ''alice'', client_ip := ''127.0.0.1''\<rparr>"
  have 1: "fst (handle_data ascii_env alice_config ?s) = Return True" by code_simp
  have 2: "length (email_repo (snd (handle_data ascii_env alice_config ?s))) = 1" by code_simp
  have 3: "email_repo ?s = []" by code_simp
  have 4: "email_repo (snd (handle_data ascii_env alice_config ?s)) \<noteq> email_repo ?s"
    using 2 3 by auto
  have 5: "authenticated ?s" "auth_user ?s = ''alice''" "client_ip ?s = ''127.0.0.1''"
    by (simp_all add: in_transaction_def init_def)
  show ?thesis
    using C7_reset_keeps_identity [of ?s ascii_env alice_config] 1 2 4 5 by simp
qed

text \<open>The first word of a stripped text that has a space in it: \<^verbatim>\<open>addr.split()\<close> is
  not empty there, so \<^verbatim>\<open>addr.split()[0]\<close> does not raise.\<close>

lemma split_ws_nonempty: "cur \<noteq> [] \<or> (\<exists>c\<in>set a. \<not> sp c) \<Longrightarrow> split_ws sp a cur \<noteq> []"
  by (induction a arbitrary: cur) auto

lemma strip_last_not_space: "strip sp x \<noteq> [] \<Longrightarrow> \<exists>c\<in>set (strip sp x). \<not> sp c"
proof -
  assume ne: "strip sp x \<noteq> []"
  then have "dropWhile sp (rev (dropWhile sp x)) \<noteq> []" by (simp add: strip_def)
  then have "\<not> sp (hd (dropWhile sp (rev (dropWhile sp x))))" by (rule hd_dropWhile)
  moreover have "hd (dropWhile sp (rev (dropWhile sp x))) \<in> set (strip sp x)"
    using \<open>dropWhile sp (rev (dropWhile sp x)) \<noteq> []\<close> by (simp add: strip_def)
  ultimately show ?thesis by blast
qed

lemma split_strip_nonempty: "strip sp x \<noteq> [] \<Longrightarrow> str_split sp (strip sp x) \<noteq> []"
  unfolding str_split_def using split_ws_nonempty strip_last_not_space by blast

text \<open>
  C9. A MAIL command that passes the authentication check and has \<^verbatim>\<open>FROM:\<close> in its
  upper-cased line is answered with 250 and changes \<open>mail_from\<close> only: the new address
  replaces the old one, and \<open>rcpt_to\<close>, with the recipients of an earlier MAIL, stays.
\<close>

theorem C9_mail_keeps_recipients:
  assumes "required (auth cfg) \<longrightarrow> authenticated s"
    and "str_find (str_upper E line) ''FROM:'' = Some idx"
  shows "handle_mail E cfg line s =
     (Return True,
      s\<lparr>mail_from :=
           strip_brackets
             (let addr = strip (str_isspace E) (drop (idx + 5) line)
              in if CHR '' '' \<in> set addr then hd (str_split (str_isspace E) addr) else addr),
         writer := writer s @ [''250 OK'']\<rparr>)
     \<and> rcpt_to (snd (handle_mail E cfg line s)) = rcpt_to s"
proof -
  let ?addr = "strip (str_isspace E) (drop (idx + 5) line)"
  have auth': "\<not> (required (auth cfg) \<and> \<not> authenticated s)" using assms(1) by blast
  show ?thesis
  proof (cases "CHR '' '' \<in> set ?addr")
    case True
    then have "?addr \<noteq> []" by auto
    then obtain a as where sp: "str_split (str_isspace E) ?addr = a # as"
      using split_strip_nonempty [of "str_isspace E" "drop (idx + 5) line"]
      by (cases "str_split (str_isspace E) ?addr") auto
    show ?thesis using True sp auth' assms(2)
      by (auto simp: handle_mail_def Let_def send_def)
  next
    case False
    show ?thesis using False auth' assms(2)
      by (auto simp: handle_mail_def Let_def send_def)
  qed
qed

theorem C9_mail_keeps_recipients_witness:
  "handle_mail ascii_env open_config ''MAIL FROM:<c@z> SIZE=10'' (in_transaction [])
     = (Return True, (in_transaction [])\<lparr>mail_from := ''c@z'', writer := [''250 OK'']\<rparr>)
   \<and> rcpt_to (snd (handle_mail ascii_env open_config ''MAIL FROM:<c@z> SIZE=10'' (in_transaction [])))
     = [''b@y'']"
proof -
  have 1: "required (auth open_config) \<longrightarrow> authenticated (in_transaction [])" by code_simp
  have 2: "str_find (str_upper ascii_env ''MAIL FROM:<c@z> SIZE=10'') ''FROM:'' = Some 5"
    by code_simp
  have 3: "strip_brackets
             (let addr = strip (str_isspace ascii_env) (drop (5 + 5) ''MAIL FROM:<c@z> SIZE=10'')
              in if CHR '' '' \<in> set addr then hd (str_split (str_isspace ascii_env) addr) else addr)
           = ''c@z''"
    by code_simp
  have 4: "writer (in_transaction []) = []" "rcpt_to (in_transaction []) = [''b@y'']"
    by (simp_all add: in_transaction_def init_def)
  show ?thesis
    using C9_mail_keeps_recipients [OF 1 2] 4 unfolding 3 by simp
qed

section \<open>STARTTLS and EHLO\<close>

text \<open>Whatever the \<^verbatim>\<open>try\<close> block raises, the handler returns \<open>True\<close> and the four
  fields of the session keep their values; they are reset only when the upgrade has
  succeeded.\<close>

lemma starttls_failure_keeps_fields:
  "start_tls E (tls_attempts s) \<noteq> Upgraded \<Longrightarrow>
   fst (handle_starttls E cfg s) = Return True
   \<and> authenticated (snd (handle_starttls E cfg s)) = authenticated s
   \<and> auth_user (snd (handle_starttls E cfg s)) = auth_user s
   \<and> mail_from (snd (handle_starttls E cfg s)) = mail_from s
   \<and> rcpt_to (snd (handle_starttls E cfg s)) = rcpt_to s
   \<and> transport (snd (handle_starttls E cfg s)) = transport s"
  by (simp add: handle_starttls_def Let_def send_def split: tls_outcome.splits)

lemma starttls_reset_only_on_success:
  "authenticated (snd (handle_starttls E cfg s)) \<noteq> authenticated s
   \<or> auth_user (snd (handle_starttls E cfg s)) \<noteq> auth_user s
   \<or> mail_from (snd (handle_starttls E cfg s)) \<noteq> mail_from s
   \<or> rcpt_to (snd (handle_starttls E cfg s)) \<noteq> rcpt_to s \<Longrightarrow>
   enabled (tls cfg) \<and> start_tls E (tls_attempts s) = Upgraded"
  by (auto simp: handle_starttls_def Let_def send_def reset_transaction_def
      split: tls_outcome.splits if_splits)

text \<open>An exception before the handshake leaves the connection alone: the session goes
  on in plaintext with what the client sends next.\<close>

lemma starttls_setup_failure_continues:
  "enabled (tls cfg) \<Longrightarrow> start_tls E (tls_attempts s) = SetupFailed e \<Longrightarrow>
   handle_starttls E cfg s =
     (Return True,
      s\<lparr>writer := writer s @ [''220 Ready to start TLS'', ''454 TLS not available: '' @ e],
         tls_attempts := Suc (tls_attempts s)\<rparr>)"
  by (simp add: handle_starttls_def Let_def send_def)

text \<open>A failed handshake leaves the session on a closed transport, and the command loop
  started on what is left to read there takes no command: it stores nothing and passes
  at most a 421 to \<^verbatim>\<open>_send\<close>.\<close>

lemma starttls_handshake_failure_closes:
  "enabled (tls cfg) \<Longrightarrow> start_tls E (tls_attempts s) = HandshakeFailed e \<Longrightarrow>
   handle_starttls E cfg s =
     (Return True,
      s\<lparr>reader := closed_reads (reader s),
         writer := writer s @ [''220 Ready to start TLS'', ''454 TLS not available: '' @ e],
         writer_closed := True,
         tls_attempts := Suc (tls_attempts s)\<rparr>)"
  by (simp add: handle_starttls_def Let_def send_def)

lemma closed_reads_cases:
  "closed_reads evs = [] \<or> (\<exists>e rest. closed_reads evs = Raises e # rest)"
proof (cases "closed_reads evs")
  case Nil
  then show ?thesis by simp
next
  case (Cons ev rest)
  then have "ev \<in> set (filter is_raise evs)" by (simp add: closed_reads_def)
  then have "is_raise ev" by simp
  then show ?thesis using Cons by (cases ev) (simp_all add: is_raise_def)
qed

lemma handle_loop_on_closed_transport:
  assumes "reader s = closed_reads evs"
  shows "email_repo (snd (handle_loop E cfg s)) = email_repo s
     \<and> (writer (snd (handle_loop E cfg s)) = writer s
         \<or> writer (snd (handle_loop E cfg s)) = writer s @ [''421 Timeout''])"
  using closed_reads_cases [of evs] assms
  by (subst (1 2 3) handle_loop.simps) (auto simp: readline_def send_def)

text \<open>
  C10. When the \<^verbatim>\<open>try\<close> block of STARTTLS raises, \<open>authenticated\<close>, \<open>auth_user\<close>,
  \<open>mail_from\<close> and \<open>rcpt_to\<close> keep their values, and they are reset only on success (the
  lemmas above). The session goes on in plaintext when the exception came before the
  handshake, but not when the handshake itself failed: the transport is closed then, and
  the commands the client sends next are not answered. The runs below are an
  authenticated session with an open transaction that sends STARTTLS, NOOP and QUIT:
  first with a failed handshake, where the 454 is the last message and the fields are
  unchanged, then with a failure before the handshake, where NOOP and QUIT are answered.
\<close>

theorem C10_failed_handshake_ends_session:
  "writer (snd (handle (ascii_env\<lparr>start_tls := \<lambda>k. HandshakeFailed ''handshake failed''\<rparr>)
      alice_tls_config
      (init [crlf ''AUTH PLAIN AGFsaWNlAHMzY3JldA=='', crlf ''MAIL FROM:<a@x>'',
             crlf ''STARTTLS'', crlf ''NOOP'', crlf ''QUIT''])))
     = [''220 localhost SMTP Ready'', ''235 Authentication successful'', ''250 OK'',
        ''220 Ready to start TLS'', ''454 TLS not available: handshake failed'']
   \<and> authenticated (snd (handle (ascii_env\<lparr>start_tls := \<lambda>k. HandshakeFailed ''handshake failed''\<rparr>)
      alice_tls_config
      (init [crlf ''AUTH PLAIN AGFsaWNlAHMzY3JldA=='', crlf ''MAIL FROM:<a@x>'',
             crlf ''STARTTLS'', crlf ''NOOP'', crlf ''QUIT''])))
   \<and> auth_user (snd (handle (ascii_env\<lparr>start_tls := \<lambda>k. HandshakeFailed ''handshake failed''\<rparr>)
      alice_tls_config
      (init [crlf ''AUTH PLAIN AGFsaWNlAHMzY3JldA=='', crlf ''MAIL FROM:<a@x>'',
             crlf ''STARTTLS'', crlf ''NOOP'', crlf ''QUIT''])))
     = ''alice''
   \<and> mail_from (snd (handle (ascii_env\<lparr>start_tls := \<lambda>k. HandshakeFailed ''handshake failed''\<rparr>)
      alice_tls_config
      (init [crlf ''AUTH PLAIN AGFsaWNlAHMzY3JldA=='', crlf ''MAIL FROM:<a@x>'',
             crlf ''STARTTLS'', crlf ''NOOP'', crlf ''QUIT''])))
     = ''a@x''
   \<and> transport (snd (handle (ascii_env\<lparr>start_tls := \<lambda>k. HandshakeFailed ''handshake failed''\<rparr>)
      alice_tls_config
      (init [crlf ''AUTH PLAIN AGFsaWNlAHMzY3JldA=='', crlf ''MAIL FROM:<a@x>'',
             crlf ''STARTTLS'', crlf ''NOOP'', crlf ''QUIT''])))
     = Plaintext
   \<and> writer_closed (snd (handle_starttls
      (ascii_env\<lparr>start_tls := \<lambda>k. HandshakeFailed ''handshake failed''\<rparr>) alice_tls_config
      (init [crlf ''NOOP'', crlf ''QUIT''])))
   \<and> reader (snd (handle_starttls
      (ascii_env\<lparr>start_tls := \<lambda>k. HandshakeFailed ''handshake failed''\<rparr>) alice_tls_config
      (init [crlf ''NOOP'', crlf ''QUIT''])))
     = []
   \<and> writer (snd (handle (ascii_env\<lparr>start_tls := \<lambda>k. SetupFailed ''no certificate''\<rparr>)
      alice_tls_config
      (init [crlf ''AUTH PLAIN AGFsaWNlAHMzY3JldA=='', crlf ''MAIL FROM:<a@x>'',
             crlf ''STARTTLS'', crlf ''NOOP'', crlf ''QUIT''])))
     = [''220 localhost SMTP Ready'', ''235 Authentication successful'', ''250 OK'',
        ''220 Ready to start TLS'', ''454 TLS not available: no certificate'',
        ''250 OK'', ''221 Bye'']"
  by code_simp

lemma writer_foldl_send: "writer (foldl (\<lambda>s' ext. send ext s') s exts) = writer s @ exts"
  by (induction exts arbitrary: s) (auto simp: send_def)

text \<open>
  C8 (as amended). The reply to EHLO is the list \<open>ehlo_extensions\<close>, and it has the line
  \<^verbatim>\<open>250-STARTTLS\<close> exactly when TLS is enabled in the configuration: the state of the
  session, its transport included, plays no part.
\<close>

theorem C8_ehlo_advertises_starttls:
  "writer (snd (handle_ehlo cfg line s)) = writer s @ ehlo_extensions cfg
   \<and> (''250-STARTTLS'' \<in> set (ehlo_extensions cfg)) = enabled (tls cfg)"
proof -
  have "''250-'' @ domain cfg @ '' Hello'' \<noteq> ''250-STARTTLS''"
  proof
    assume "''250-'' @ domain cfg @ '' Hello'' = ''250-STARTTLS''"
    then have "domain cfg @ '' Hello'' = ''STARTTLS''" by simp
    then have "rev (domain cfg @ '' Hello'') = rev ''STARTTLS''" by simp
    then show False by simp
  qed
  then have "(''250-STARTTLS'' \<in> set (ehlo_extensions cfg)) = enabled (tls cfg)"
    by (auto simp: ehlo_extensions_def)
  moreover have "writer (snd (handle_ehlo cfg line s)) = writer s @ ehlo_extensions cfg"
    by (simp add: handle_ehlo_def writer_foldl_send)
  ultimately show ?thesis by simp
qed

theorem C8_ehlo_advertises_starttls_witness:
  "writer (snd (handle_ehlo alice_tls_config ''EHLO test'' ((init [])\<lparr>transport := TLSWrapped\<rparr>)))
     = [''250-localhost Hello'', ''250-AUTH PLAIN LOGIN'', ''250-STARTTLS'',
        ''250-SIZE 10485760'', ''250 OK'']"
proof -
  have 1: "ehlo_extensions alice_tls_config
           = [''250-localhost Hello'', ''250-AUTH PLAIN LOGIN'', ''250-STARTTLS'',
              ''250-SIZE 10485760'', ''250 OK'']"
    by code_simp
  have 2: "writer ((init [])\<lparr>transport := TLSWrapped\<rparr>) = []" by (simp add: init_def)
  show ?thesis
    using C8_ehlo_advertises_starttls [of alice_tls_config "''EHLO test''" "(init [])\<lparr>transport := TLSWrapped\<rparr>"]
    unfolding 1 2 by simp
qed

theorem C8_counterexample:
  "transport (snd (handle ascii_env alice_tls_config (init [crlf ''STARTTLS'', crlf ''EHLO test''])))
     = TLSWrapped
   \<and> writer (snd (handle ascii_env alice_tls_config (init [crlf ''STARTTLS'', crlf ''EHLO test''])))
     = [''220 localhost SMTP Ready'', ''220 Ready to start TLS'',
        ''250-localhost Hello'', ''250-AUTH PLAIN LOGIN'', ''250-STARTTLS'',
        ''250-SIZE 10485760'', ''250 OK'']"
  by code_simp

section \<open>AUTH PLAIN\<close>

lemma split_on_nonempty: "split_on sep xs \<noteq> []"
  by (induction xs) (auto split: list.splits)

text \<open>
  C3 (as amended). The credential blob of AUTH PLAIN is the third word of the command
  line or, without one, the stripped line read after the prompt \<^verbatim>\<open>334\<close>. It is
  base64-decoded, decoded as text and split on NUL. With three or more fields the second
  and third are the user name and the password (fields after the third are ignored); with
  exactly two fields they are the first and the second. The pair is compared with the
  configured one: 235 and \<open>authenticated\<close>, \<open>auth_user\<close> set when it matches, 535 when it
  does not. A blob that does not decode, or has one field only, is answered with 535. The
  reply 535 is all that changes then: no field of the session is written.
\<close>

theorem C3_auth_plain_fields:
  fixes E :: env and cfg :: SMTPConfig and s :: SMTPSession
  defines "failed \<equiv> \<lambda>s. (Return True, send ''535 Authentication failed'' s)"
    and "accepted \<equiv> \<lambda>u s. (Return True, send ''235 Authentication successful''
                                (s\<lparr>authenticated := True, auth_user := u\<rparr>))"
    and "matches \<equiv> \<lambda>u p. u = username (auth cfg) \<and> p = password (auth cfg)"
  shows "handle_auth_plain E cfg [w1, w2, cred] s = auth_plain_check E cfg cred s
   \<and> (length parts \<noteq> 3 \<and> reader s = Line b # rest \<and> utf8_decode E b = Some text \<longrightarrow>
        handle_auth_plain E cfg parts s
          = auth_plain_check E cfg (strip (str_isspace E) text) ((send ''334 '' s)\<lparr>reader := rest\<rparr>))
   \<and> (b64decode_str E cred = None \<longrightarrow> auth_plain_check E cfg cred s = failed s)
   \<and> (b64decode_str E cred = Some raw \<and> utf8_decode E raw = None \<longrightarrow>
        auth_plain_check E cfg cred s = failed s)
   \<and> (b64decode_str E cred = Some raw \<and> utf8_decode E raw = Some decoded
        \<and> split_on (CHR 0x00) decoded = flds \<longrightarrow>
        1 \<le> length flds
        \<and> (3 \<le> length flds \<longrightarrow>
             auth_plain_check E cfg cred s
               = (if matches (flds ! 1) (flds ! 2) then accepted (flds ! 1) s else failed s))
        \<and> (length flds = 2 \<longrightarrow>
             auth_plain_check E cfg cred s
               = (if matches (flds ! 0) (flds ! 1) then accepted (flds ! 0) s else failed s))
        \<and> (length flds = 1 \<longrightarrow> auth_plain_check E cfg cred s = failed s))"
proof -
  have a: "handle_auth_plain E cfg [w1, w2, cred] s = auth_plain_check E cfg cred s"
    by (simp add: handle_auth_plain_def)
  have b: "handle_auth_plain E cfg parts s
          = auth_plain_check E cfg (strip (str_isspace E) text) ((send ''334 '' s)\<lparr>reader := rest\<rparr>)"
    if "length parts \<noteq> 3" "reader s = Line b # rest" "utf8_decode E b = Some text"
    using that by (simp add: handle_auth_plain_def readline_def send_def)
  have c: "auth_plain_check E cfg cred s = failed s" if "b64decode_str E cred = None"
    using that by (simp add: auth_plain_check_def failed_def)
  have d: "auth_plain_check E cfg cred s = failed s"
    if "b64decode_str E cred = Some raw" "utf8_decode E raw = None"
    using that by (simp add: auth_plain_check_def failed_def)
  have e: "1 \<le> length flds
        \<and> (3 \<le> length flds \<longrightarrow>
             auth_plain_check E cfg cred s
               = (if matches (flds ! 1) (flds ! 2) then accepted (flds ! 1) s else failed s))
        \<and> (length flds = 2 \<longrightarrow>
             auth_plain_check E cfg cred s
               = (if matches (flds ! 0) (flds ! 1) then accepted (flds ! 0) s else failed s))
        \<and> (length flds = 1 \<longrightarrow> auth_plain_check E cfg cred s = failed s)"
    if "b64decode_str E cred = Some raw" "utf8_decode E raw = Some decoded"
      "split_on (CHR 0x00) decoded = flds"
  proof -
    have "flds \<noteq> []" using that(3) split_on_nonempty by metis
    then have "1 \<le> length flds" by (cases flds) auto
    then show ?thesis using that
      by (auto simp: auth_plain_check_def plain_fields_def failed_def accepted_def matches_def Let_def)
  qed
  from a b c d e show ?thesis by blast
qed


theorem C3_auth_plain_fields_witness:
  "handle_auth_plain ascii_env alice_config [''AUTH'', ''PLAIN'', ''AGFsaWNlAHMzY3JldA==''] (init [])
     = (Return True,
        (init [])\<lparr>authenticated := True, auth_user := ''alice'',
                  writer := [''235 Authentication successful'']\<rparr>)
   \<and> handle_auth_plain ascii_env alice_config [''AUTH'', ''PLAIN'', ''YWxpY2UAczNjcmV0''] (init [])
     = (Return True,
        (init [])\<lparr>authenticated := True, auth_user := ''alice'',
                  writer := [''235 Authentication successful'']\<rparr>)
   \<and> handle_auth_plain ascii_env alice_config [''AUTH'', ''PLAIN'', ''YWxpY2U=''] (init [])
     = (Return True, (init [])\<lparr>writer := [''535 Authentication failed'']\<rparr>)"
proof -
  let ?three = "[[], ''alice'', ''s3cret'']"
  let ?two = "[''alice'', ''s3cret'']"
  let ?one = "[''alice'']"
  have w: "writer (init []) = []" by (simp add: init_def)
  have u: "username (auth alice_config) = ''alice''" "password (auth alice_config) = ''s3cret''"
    by (simp_all add: alice_config_def)
  have 1: "b64decode_str ascii_env ''AGFsaWNlAHMzY3JldA=='' = Some (CHR 0x00 # ''alice'' @ CHR 0x00 # ''s3cret'')
      \<and> utf8_decode ascii_env (CHR 0x00 # ''alice'' @ CHR 0x00 # ''s3cret'')
          = Some (CHR 0x00 # ''alice'' @ CHR 0x00 # ''s3cret'')
      \<and> split_on (CHR 0x00) (CHR 0x00 # ''alice'' @ CHR 0x00 # ''s3cret'') = ?three"
    by code_simp
  have 2: "b64decode_str ascii_env ''YWxpY2UAczNjcmV0'' = Some (''alice'' @ CHR 0x00 # ''s3cret'')
      \<and> utf8_decode ascii_env (''alice'' @ CHR 0x00 # ''s3cret'') = Some (''alice'' @ CHR 0x00 # ''s3cret'')
      \<and> split_on (CHR 0x00) (''alice'' @ CHR 0x00 # ''s3cret'') = ?two"
    by code_simp
  have 3: "b64decode_str ascii_env ''YWxpY2U='' = Some ''alice''
      \<and> utf8_decode ascii_env ''alice'' = Some ''alice''
      \<and> split_on (CHR 0x00) ''alice'' = ?one"
    by code_simp
  have a: "handle_auth_plain ascii_env alice_config [''AUTH'', ''PLAIN'', ''AGFsaWNlAHMzY3JldA==''] (init [])
     = (Return True,
        (init [])\<lparr>authenticated := True, auth_user := ''alice'',
                  writer := [''235 Authentication successful'']\<rparr>)"
    using C3_auth_plain_fields [of ascii_env alice_config "''AUTH''" "''PLAIN''" "''AGFsaWNlAHMzY3JldA==''"
        "init []" "[]" "[]" "[]" "[]" "CHR 0x00 # ''alice'' @ CHR 0x00 # ''s3cret''"
        "CHR 0x00 # ''alice'' @ CHR 0x00 # ''s3cret''" ?three] 1 u w
    by (simp add: send_def)
  have b: "handle_auth_plain ascii_env alice_config [''AUTH'', ''PLAIN'', ''YWxpY2UAczNjcmV0''] (init [])
     = (Return True,
        (init [])\<lparr>authenticated := True, auth_user := ''alice'',
                  writer := [''235 Authentication successful'']\<rparr>)"
    using C3_auth_plain_fields [of ascii_env alice_config "''AUTH''" "''PLAIN''" "''YWxpY2UAczNjcmV0''"
        "init []" "[]" "[]" "[]" "[]" "''alice'' @ CHR 0x00 # ''s3cret''"
        "''alice'' @ CHR 0x00 # ''s3cret''" ?two] 2 u w
    by (simp add: send_def)
  have c: "handle_auth_plain ascii_env alice_config [''AUTH'', ''PLAIN'', ''YWxpY2U=''] (init [])
     = (Return True, (init [])\<lparr>writer := [''535 Authentication failed'']\<rparr>)"
    using C3_auth_plain_fields [of ascii_env alice_config "''AUTH''" "''PLAIN''" "''YWxpY2U=''"
        "init []" "[]" "[]" "[]" "[]" "''alice''" "''alice''" ?one] 3 u w
    by (simp add: send_def)
  from a b c show ?thesis by blast
qed

theorem C3_counterexample:
  "map_option (split_on (CHR 0x00)) (ascii_b64decode ''AGFsaWNlAHMzY3JldAB4'')
     = Some [[], ''alice'', ''s3cret'', ''x'']
   \<and> handle_auth_plain ascii_env alice_config [''AUTH'', ''PLAIN'', ''AGFsaWNlAHMzY3JldAB4''] (init [])
     = (Return True,
        (init [])\<lparr>authenticated := True, auth_user := ''alice'',
                  writer := [''235 Authentication successful'']\<rparr>)
   \<and> writer (snd (handle ascii_env alice_config
        (init [crlf ''AUTH PLAIN AGFsaWNlAHMzY3JldAB4'', crlf ''MAIL FROM:<a@x>''])))
     = [''220 localhost SMTP Ready'', ''235 Authentication successful'', ''250 OK'']"
  by code_simp

section \<open>What each handler leaves alone\<close>

lemma send_fields [simp]:
  "authenticated (send m s) = authenticated s"
  "auth_user (send m s) = auth_user s"
  "mail_from (send m s) = mail_from s"
  "rcpt_to (send m s) = rcpt_to s"
  "client_ip (send m s) = client_ip s"
  "writer (send m s) = writer s @ [m]"
  "transport (send m s) = transport s"
  "email_repo (send m s) = email_repo s"
  "tls_attempts (send m s) = tls_attempts s"
  by (simp_all add: send_def)

lemma reset_transaction_fields [simp]:
  "authenticated (reset_transaction s) = authenticated s"
  "auth_user (reset_transaction s) = auth_user s"
  "mail_from (reset_transaction s) = []"
  "rcpt_to (reset_transaction s) = []"
  "client_ip (reset_transaction s) = client_ip s"
  "writer (reset_transaction s) = writer s"
  "transport (reset_transaction s) = transport s"
  "email_repo (reset_transaction s) = email_repo s"
  "tls_attempts (reset_transaction s) = tls_attempts s"
  by (simp_all add: reset_transaction_def)

lemma foldl_send_fields [simp]:
  "authenticated (foldl (\<lambda>s' ext. send ext s') s exts) = authenticated s"
  "email_repo (foldl (\<lambda>s' ext. send ext s') s exts) = email_repo s"
  "rcpt_to (foldl (\<lambda>s' ext. send ext s') s exts) = rcpt_to s"
  "mail_from (foldl (\<lambda>s' ext. send ext s') s exts) = mail_from s"
  by (induction exts arbitrary: s) auto

text \<open>A read changes the reader only.\<close>

lemma readline_fields:
  assumes "readline s = (r, s1)"
  shows "authenticated s1 = authenticated s" and "auth_user s1 = auth_user s"
    and "mail_from s1 = mail_from s" and "rcpt_to s1 = rcpt_to s"
    and "client_ip s1 = client_ip s" and "writer s1 = writer s"
    and "transport s1 = transport s" and "email_repo s1 = email_repo s"
    and "tls_attempts s1 = tls_attempts s"
  using assms by (auto simp: readline_def split: list.splits read_event.splits)

text \<open>The credential check stores nothing and leaves the transaction alone; from an
  unauthenticated session it authenticates only with the reply 235.\<close>

lemma auth_plain_check_frame:
  "email_repo (snd (auth_plain_check E cfg c s)) = email_repo s
   \<and> rcpt_to (snd (auth_plain_check E cfg c s)) = rcpt_to s
   \<and> mail_from (snd (auth_plain_check E cfg c s)) = mail_from s
   \<and> (authenticated (snd (auth_plain_check E cfg c s)) \<longrightarrow>
        authenticated s
        \<or> last (writer (snd (auth_plain_check E cfg c s))) = ''235 Authentication successful'')"
  by (simp add: auth_plain_check_def Let_def split: option.splits prod.splits)

lemma handle_auth_plain_frame:
  "email_repo (snd (handle_auth_plain E cfg parts s)) = email_repo s
   \<and> rcpt_to (snd (handle_auth_plain E cfg parts s)) = rcpt_to s
   \<and> mail_from (snd (handle_auth_plain E cfg parts s)) = mail_from s
   \<and> (authenticated (snd (handle_auth_plain E cfg parts s)) \<longrightarrow>
        authenticated s
        \<or> last (writer (snd (handle_auth_plain E cfg parts s))) = ''235 Authentication successful'')"
proof (cases "length parts = 3")
  case True
  then show ?thesis using auth_plain_check_frame [of E cfg "parts ! 2" s]
    by (simp add: handle_auth_plain_def)
next
  case False
  obtain r s1 where rl: "readline (send ''334 '' s) = (r, s1)"
    by (cases "readline (send ''334 '' s)")
  note s1 = readline_fields [OF rl]
  show ?thesis
  proof (cases r)
    case (Inl e)
    then show ?thesis using False rl s1 by (simp add: handle_auth_plain_def)
  next
    case (Inr cred_line)
    show ?thesis
    proof (cases "utf8_decode E cred_line")
      case None
      then show ?thesis using False rl s1 Inr by (simp add: handle_auth_plain_def)
    next
      case (Some decoded)
      then show ?thesis
        using False rl s1 Inr auth_plain_check_frame [of E cfg "strip (str_isspace E) decoded" s1]
        by (simp add: handle_auth_plain_def)
    qed
  qed
qed

lemma handle_auth_login_frame:
  "email_repo (snd (handle_auth_login E cfg s)) = email_repo s
   \<and> rcpt_to (snd (handle_auth_login E cfg s)) = rcpt_to s
   \<and> mail_from (snd (handle_auth_login E cfg s)) = mail_from s
   \<and> (authenticated (snd (handle_auth_login E cfg s)) \<longrightarrow>
        authenticated s
        \<or> last (writer (snd (handle_auth_login E cfg s))) = ''235 Authentication successful'')"
proof -
  obtain r s1 where rl: "readline (send ''334 VXNlcm5hbWU6'' s) = (r, s1)"
    by (cases "readline (send ''334 VXNlcm5hbWU6'' s)")
  have f1: "email_repo s1 = email_repo s" "rcpt_to s1 = rcpt_to s" "mail_from s1 = mail_from s"
    "authenticated s1 = authenticated s"
    using readline_fields [OF rl] by simp_all
  obtain r2 s2 where rl2: "readline (send ''334 UGFzc3dvcmQ6'' s1) = (r2, s2)"
    by (cases "readline (send ''334 UGFzc3dvcmQ6'' s1)")
  have f2: "email_repo s2 = email_repo s" "rcpt_to s2 = rcpt_to s" "mail_from s2 = mail_from s"
    "authenticated s2 = authenticated s"
    using readline_fields [OF rl2] f1 by simp_all
  show ?thesis
    unfolding handle_auth_login_def rl
    by (cases r; cases r2) (simp_all add: rl2 f1 f2 split: option.splits)
qed

lemma handle_auth_frame:
  "email_repo (snd (handle_auth E cfg line s)) = email_repo s
   \<and> rcpt_to (snd (handle_auth E cfg line s)) = rcpt_to s
   \<and> mail_from (snd (handle_auth E cfg line s)) = mail_from s
   \<and> (authenticated (snd (handle_auth E cfg line s)) \<longrightarrow>
        authenticated s
        \<or> last (writer (snd (handle_auth E cfg line s))) = ''235 Authentication successful'')"
  using handle_auth_plain_frame [of E cfg "str_split (str_isspace E) line" s]
    handle_auth_login_frame [of E cfg s]
  by (simp add: handle_auth_def Let_def)

lemma handle_ehlo_frame [simp]:
  "authenticated (snd (handle_ehlo cfg line s)) = authenticated s"
  "email_repo (snd (handle_ehlo cfg line s)) = email_repo s"
  "rcpt_to (snd (handle_ehlo cfg line s)) = rcpt_to s"
  "mail_from (snd (handle_ehlo cfg line s)) = mail_from s"
  by (simp_all add: handle_ehlo_def)

lemma handle_mail_frame [simp]:
  "authenticated (snd (handle_mail E cfg line s)) = authenticated s"
  "email_repo (snd (handle_mail E cfg line s)) = email_repo s"
  "rcpt_to (snd (handle_mail E cfg line s)) = rcpt_to s"
  by (simp_all add: handle_mail_def Let_def split: option.splits list.splits)

lemma handle_rcpt_frame [simp]:
  "authenticated (snd (handle_rcpt E cfg line s)) = authenticated s"
  "email_repo (snd (handle_rcpt E cfg line s)) = email_repo s"
  "mail_from (snd (handle_rcpt E cfg line s)) = mail_from s"
  by (simp_all add: handle_rcpt_def Let_def split: option.splits)

lemma handle_rset_frame [simp]:
  "authenticated (snd (handle_rset s)) = authenticated s"
  "email_repo (snd (handle_rset s)) = email_repo s"
  "rcpt_to (snd (handle_rset s)) = []"
  "mail_from (snd (handle_rset s)) = []"
  by (simp_all add: handle_rset_def)

lemma handle_starttls_frame:
  "email_repo (snd (handle_starttls E cfg s)) = email_repo s"
  "authenticated (snd (handle_starttls E cfg s)) \<longrightarrow> authenticated s"
  "rcpt_to (snd (handle_starttls E cfg s)) = [] \<or> rcpt_to (snd (handle_starttls E cfg s)) = rcpt_to s"
  by (simp_all add: handle_starttls_def Let_def split: tls_outcome.splits)

lemma handle_data_authenticated [simp]:
  "authenticated (snd (handle_data E cfg s)) = authenticated s"
  by (simp add: handle_data_def Let_def split: prod.splits body_result.splits)

lemma handle_data_unauthenticated:
  "required (auth cfg) \<Longrightarrow> \<not> authenticated s \<Longrightarrow>
   handle_data E cfg s = (Return True, send ''530 Authentication required'' s)"
  by (simp add: handle_data_def)


text \<open>The dispatch of \<^verbatim>\<open>_process_command\<close> as a case rule: which handler runs, and
  the command word where a proof needs it.\<close>

lemma process_command_cases [case_names ehlo auth mail rcpt data rset quit noop starttls unknown]:
  obtains "process_command E cfg line s = handle_ehlo cfg line s"
  | "command_word E line = ''AUTH''" and "process_command E cfg line s = handle_auth E cfg line s"
  | "command_word E line = ''MAIL''" and "process_command E cfg line s = handle_mail E cfg line s"
  | "command_word E line = ''RCPT''" and "process_command E cfg line s = handle_rcpt E cfg line s"
  | "command_word E line = ''DATA''" and "process_command E cfg line s = handle_data E cfg s"
  | "process_command E cfg line s = handle_rset s"
  | "process_command E cfg line s = (Return False, send ''221 Bye'' s)"
  | "process_command E cfg line s = (Return True, send ''250 OK'' s)"
  | "process_command E cfg line s = handle_starttls E cfg s"
  | "command_word E line \<noteq> ''AUTH''" and "command_word E line \<noteq> ''MAIL''"
    and "command_word E line \<noteq> ''RCPT''" and "command_word E line \<noteq> ''DATA''"
    and "process_command E cfg line s = (Return True, send ''500 Unknown command'' s)"
proof -
  let ?c = "command_word E line"
  consider "?c = ''EHLO'' \<or> ?c = ''HELO''" | "?c = ''AUTH''" | "?c = ''MAIL''" | "?c = ''RCPT''"
    | "?c = ''DATA''" | "?c = ''RSET''" | "?c = ''QUIT''" | "?c = ''NOOP''" | "?c = ''STARTTLS''"
    | "\<not> (?c = ''EHLO'' \<or> ?c = ''HELO'')" "?c \<noteq> ''AUTH''" "?c \<noteq> ''MAIL''" "?c \<noteq> ''RCPT''"
      "?c \<noteq> ''DATA''" "?c \<noteq> ''RSET''" "?c \<noteq> ''QUIT''" "?c \<noteq> ''NOOP''" "?c \<noteq> ''STARTTLS''"
    by blast
  then show thesis
  proof cases
    case 1 then show ?thesis using that(1) by (auto simp: process_command_def)
  next
    case 2 then show ?thesis using that(2) by (simp add: process_command_def)
  next
    case 3 then show ?thesis using that(3) by (simp add: process_command_def)
  next
    case 4 then show ?thesis using that(4) by (simp add: process_command_def)
  next
    case 5 then show ?thesis using that(5) by (simp add: process_command_def)
  next
    case 6 then show ?thesis using that(6) by (simp add: process_command_def)
  next
    case 7 then show ?thesis using that(7) by (simp add: process_command_def)
  next
    case 8 then show ?thesis using that(8) by (simp add: process_command_def)
  next
    case 9 then show ?thesis using that(9) by (simp add: process_command_def)
  next
    case 10 then show ?thesis using that(10) by (simp add: process_command_def)
  qed
qed


section \<open>After STARTTLS\<close>

text \<open>
  C4 (as amended). A successful STARTTLS leaves \<open>authenticated\<close> false, \<open>auth_user\<close>,
  \<open>mail_from\<close> and \<open>rcpt_to\<close> empty and the transport TLS-wrapped. While \<^verbatim>\<open>auth.required\<close>
  is true and the session is not authenticated, no command hands a mail to the store,
  every MAIL, RCPT and DATA is answered with 530 and changes nothing else, and the only
  command after which the session is authenticated is an AUTH answered with 235.
\<close>

theorem C4_starttls_resets_session:
  "(enabled (tls cfg) \<and> start_tls E (tls_attempts s) = Upgraded \<longrightarrow>
      fst (handle_starttls E cfg s) = Return True
      \<and> \<not> authenticated (snd (handle_starttls E cfg s))
      \<and> auth_user (snd (handle_starttls E cfg s)) = []
      \<and> mail_from (snd (handle_starttls E cfg s)) = []
      \<and> rcpt_to (snd (handle_starttls E cfg s)) = []
      \<and> transport (snd (handle_starttls E cfg s)) = TLSWrapped)
   \<and> (required (auth cfg) \<and> \<not> authenticated s \<longrightarrow>
      email_repo (snd (process_command E cfg line s)) = email_repo s
      \<and> (command_word E line = ''MAIL'' \<or> command_word E line = ''RCPT''
           \<or> command_word E line = ''DATA'' \<longrightarrow>
           process_command E cfg line s = (Return True, send ''530 Authentication required'' s))
      \<and> (authenticated (snd (process_command E cfg line s)) \<longrightarrow>
           command_word E line = ''AUTH''
           \<and> last (writer (snd (process_command E cfg line s))) = ''235 Authentication successful''))"
proof -
  have a: "fst (handle_starttls E cfg s) = Return True
      \<and> \<not> authenticated (snd (handle_starttls E cfg s))
      \<and> auth_user (snd (handle_starttls E cfg s)) = []
      \<and> mail_from (snd (handle_starttls E cfg s)) = []
      \<and> rcpt_to (snd (handle_starttls E cfg s)) = []
      \<and> transport (snd (handle_starttls E cfg s)) = TLSWrapped"
    if "enabled (tls cfg)" "start_tls E (tls_attempts s) = Upgraded"
    using that by (simp add: handle_starttls_def Let_def reset_transaction_def send_def)
  have b: "email_repo (snd (process_command E cfg line s)) = email_repo s"
    if "required (auth cfg)" "\<not> authenticated s"
    using that handle_auth_frame [of E cfg line s] handle_starttls_frame(1) [of E cfg s]
    by (cases E cfg line s rule: process_command_cases)
      (simp_all add: handle_data_unauthenticated)
  have c: "process_command E cfg line s = (Return True, send ''530 Authentication required'' s)"
    if "required (auth cfg)" "\<not> authenticated s"
      "command_word E line = ''MAIL'' \<or> command_word E line = ''RCPT'' \<or> command_word E line = ''DATA''"
  proof -
    have "handle_mail E cfg line s = (Return True, send ''530 Authentication required'' s)"
      "handle_rcpt E cfg line s = (Return True, send ''530 Authentication required'' s)"
      "handle_data E cfg s = (Return True, send ''530 Authentication required'' s)"
      using that(1,2) by (simp_all add: handle_mail_def handle_rcpt_def handle_data_def)
    then show ?thesis using that(3) by (auto simp: process_command_def)
  qed
  have d: "command_word E line = ''AUTH''
           \<and> last (writer (snd (process_command E cfg line s))) = ''235 Authentication successful''"
    if "required (auth cfg)" "\<not> authenticated s" "authenticated (snd (process_command E cfg line s))"
    using that handle_auth_frame [of E cfg line s] handle_starttls_frame(2) [of E cfg s]
    by (cases E cfg line s rule: process_command_cases)
      (simp_all add: handle_data_unauthenticated)
  from a b c d show ?thesis by blast
qed

theorem C4_starttls_resets_session_witness:
  "\<not> authenticated (snd (handle_starttls ascii_env alice_tls_config
        ((in_transaction [])\<lparr>authenticated := True, auth_user := ''alice''\<rparr>)))
   \<and> auth_user (snd (handle_starttls ascii_env alice_tls_config
        ((in_transaction [])\<lparr>authenticated := True, auth_user := ''alice''\<rparr>))) = []
   \<and> mail_from (snd (handle_starttls ascii_env alice_tls_config
        ((in_transaction [])\<lparr>authenticated := True, auth_user := ''alice''\<rparr>))) = []
   \<and> rcpt_to (snd (handle_starttls ascii_env alice_tls_config
        ((in_transaction [])\<lparr>authenticated := True, auth_user := ''alice''\<rparr>))) = []
   \<and> process_command ascii_env alice_tls_config ''MAIL FROM:<x>''
        (snd (handle_starttls ascii_env alice_tls_config
           ((in_transaction [])\<lparr>authenticated := True, auth_user := ''alice''\<rparr>)))
      = (Return True,
         send ''530 Authentication required''
           (snd (handle_starttls ascii_env alice_tls_config
              ((in_transaction [])\<lparr>authenticated := True, auth_user := ''alice''\<rparr>))))"
proof -
  let ?s = "(in_transaction [])\<lparr>authenticated := True, auth_user := ''alice''\<rparr>"
  let ?s' = "snd (handle_starttls ascii_env alice_tls_config ?s)"
  have 1: "enabled (tls alice_tls_config) \<and> start_tls ascii_env (tls_attempts ?s) = Upgraded"
    by code_simp
  have 2: "required (auth alice_tls_config)" by code_simp
  have 3: "command_word ascii_env ''MAIL FROM:<x>'' = ''MAIL''" by code_simp
  have a: "\<not> authenticated ?s' \<and> auth_user ?s' = [] \<and> mail_from ?s' = [] \<and> rcpt_to ?s' = []"
    using C4_starttls_resets_session [of alice_tls_config ascii_env ?s] 1 by blast
  then have "process_command ascii_env alice_tls_config ''MAIL FROM:<x>'' ?s'
      = (Return True, send ''530 Authentication required'' ?s')"
    using C4_starttls_resets_session [of alice_tls_config ascii_env ?s' "''MAIL FROM:<x>''"] 2 3
    by blast
  with a show ?thesis by blast
qed

theorem C4_counterexample:
  "writer (snd (handle ascii_env open_tls_config (init [crlf ''STARTTLS'', crlf ''MAIL FROM:<x>''])))
     = [''220 localhost SMTP Ready'', ''220 Ready to start TLS'', ''250 OK'']
   \<and> mail_from (snd (handle ascii_env open_tls_config (init [crlf ''STARTTLS'', crlf ''MAIL FROM:<x>''])))
     = ''x''
   \<and> writer (snd (handle ascii_env alice_tls_config
        (init [crlf ''STARTTLS'', crlf ''AUTH PLAIN AGFsaWNlAHMzY3JldA=='', crlf ''MAIL FROM:<a@x>'',
               crlf ''RCPT TO:<b@y>'', crlf ''DATA'', crlf ''hello'', crlf ''.''])))
     = [''220 localhost SMTP Ready'', ''220 Ready to start TLS'', ''235 Authentication successful'',
        ''250 OK'', ''250 OK'', ''354 Start mail input; end with <CRLF>.<CRLF>'',
        ''250 OK: Message accepted'']
   \<and> map sender (email_repo (snd (handle ascii_env alice_tls_config
        (init [crlf ''STARTTLS'', crlf ''AUTH PLAIN AGFsaWNlAHMzY3JldA=='', crlf ''MAIL FROM:<a@x>'',
               crlf ''RCPT TO:<b@y>'', crlf ''DATA'', crlf ''hello'', crlf ''.'']))))
     = [''a@x'']"
  by code_simp

section \<open>Every stored mail has a sender and a bounded list of recipients\<close>

lemma session_inv_cong:
  "rcpt_to s' = rcpt_to s \<Longrightarrow> email_repo s' = email_repo s \<Longrightarrow>
   session_inv cfg s' = session_inv cfg s"
  by (simp add: session_inv_def)

lemma session_inv_clear:
  "session_inv cfg s \<Longrightarrow> rcpt_to s' = [] \<Longrightarrow> email_repo s' = email_repo s \<Longrightarrow>
   session_inv cfg s'"
  by (simp add: session_inv_def)

lemma session_inv_send [simp]: "session_inv cfg (send m s) = session_inv cfg s"
  by (simp add: session_inv_def)

lemma session_inv_readline: "readline s = (r, s1) \<Longrightarrow> session_inv cfg s1 = session_inv cfg s"
  using readline_fields [of s r s1] by (simp add: session_inv_def)

lemma handle_rcpt_inv: "session_inv cfg s \<Longrightarrow> session_inv cfg (snd (handle_rcpt E cfg line s))"
  by (auto simp: handle_rcpt_def session_inv_def Let_def split: option.splits)

lemma handle_starttls_inv:
  "session_inv cfg s \<Longrightarrow> session_inv cfg (snd (handle_starttls E cfg s))"
  using handle_starttls_frame [of E cfg s] by (auto simp: session_inv_def)

lemma sender_make_email [simp]: "sender (make_email E s d) = mail_from s"
  by (simp add: make_email_def Let_def split: prod.splits)

lemma recipients_make_email [simp]: "recipients (make_email E s d) = rcpt_to s"
  by (simp add: make_email_def Let_def split: prod.splits)

lemma handle_data_inv: "session_inv cfg s \<Longrightarrow> session_inv cfg (snd (handle_data E cfg s))"
proof -
  assume inv: "session_inv cfg s"
  let ?s1 = "send ''354 Start mail input; end with <CRLF>.<CRLF>'' s"
  obtain br rest where dl: "data_loop (max_message_bytes cfg) (reader ?s1) [] 0 = (br, rest)"
    by (cases "data_loop (max_message_bytes cfg) (reader ?s1) [] 0")
  show ?thesis
  proof (cases "(required (auth cfg) \<and> \<not> authenticated s) \<or> mail_from s = [] \<or> rcpt_to s = []")
    case True
    then show ?thesis using inv by (auto simp: handle_data_def)
  next
    case False
    then have open_tx: "mail_from s \<noteq> []" "rcpt_to s \<noteq> []"
      and "\<not> (required (auth cfg) \<and> \<not> authenticated s)" by auto
    then have bound: "int (length (rcpt_to s)) \<le> max_recipients cfg"
      using inv by (simp add: session_inv_def)
    show ?thesis
    proof (cases br)
      case (BodyDone data)
      then show ?thesis using False dl inv open_tx bound
        by (auto simp: handle_data_def Let_def session_inv_def Suc_le_eq)
    qed (use False dl inv in \<open>auto simp: handle_data_def Let_def session_inv_def\<close>)
  qed
qed

lemma process_command_inv:
  assumes inv: "session_inv cfg s"
  shows "session_inv cfg (snd (process_command E cfg line s))"
proof (cases E cfg line s rule: process_command_cases)
  case ehlo
  then show ?thesis using inv session_inv_cong [of "snd (handle_ehlo cfg line s)" s cfg] by simp
next
  case auth
  then show ?thesis
    using inv handle_auth_frame [of E cfg line s]
      session_inv_cong [of "snd (handle_auth E cfg line s)" s cfg] by simp
next
  case mail
  then show ?thesis
    using inv session_inv_cong [of "snd (handle_mail E cfg line s)" s cfg] by simp
next
  case rcpt
  then show ?thesis using inv handle_rcpt_inv by simp
next
  case data
  then show ?thesis using inv handle_data_inv by simp
next
  case rset
  then show ?thesis
    using inv session_inv_clear [of cfg s "snd (handle_rset s)"] by simp
next
  case starttls
  then show ?thesis using inv handle_starttls_inv by simp
qed (use inv in simp_all)

lemma handle_loop_inv:
  "session_inv cfg s \<Longrightarrow> session_inv cfg (snd (handle_loop E cfg s))"
proof (induction E cfg s rule: handle_loop.induct)
  case (1 E cfg s)
  obtain r s1 where rl: "readline s = (r, s1)" by (cases "readline s")
  have inv1: "session_inv cfg s1" using session_inv_readline [OF rl] "1.prems" by simp
  show ?case
  proof (cases r)
    case (Inl e)
    then show ?thesis using rl inv1 by (subst handle_loop.simps) simp
  next
    case (Inr line)
    let ?command = "strip (str_isspace E) (utf8_decode_replace E line)"
    show ?thesis
    proof (cases "line = []")
      case True
      then show ?thesis using rl Inr inv1 by (subst handle_loop.simps) simp
    next
      case nonempty: False
      show ?thesis
      proof (cases "?command = []")
        case True
        have "session_inv cfg (snd (handle_loop E cfg s1))"
          using "1.IH"(1) [OF rl [symmetric] Inr nonempty refl True inv1] .
        then show ?thesis using rl Inr nonempty True by (subst handle_loop.simps) simp
      next
        case False
        obtain res s2 where pc: "process_command E cfg ?command s1 = (res, s2)"
          by (cases "process_command E cfg ?command s1")
        have inv2: "session_inv cfg s2"
          using process_command_inv [OF inv1, of E ?command] pc by simp
        show ?thesis
        proof (cases res)
          case (Return continue)
          show ?thesis
          proof (cases continue)
            case True
            have "session_inv cfg (snd (handle_loop E cfg s2))"
              using "1.IH"(2) [OF rl [symmetric] Inr nonempty refl False pc [symmetric] Return True inv2] .
            then show ?thesis using rl Inr nonempty False pc Return True
              by (subst handle_loop.simps) simp
          next
            case stop: False
            then show ?thesis using rl Inr nonempty False pc Return inv2
              by (subst handle_loop.simps) simp
          qed
        next
          case (Raise e)
          then show ?thesis using rl Inr nonempty False pc inv2
            by (subst handle_loop.simps) simp
        next
          case Diverge
          then show ?thesis using rl Inr nonempty False pc inv2
            by (subst handle_loop.simps) simp
        qed
      qed
    qed
  qed
qed

lemma handle_inv: "session_inv cfg s \<Longrightarrow> session_inv cfg (snd (handle E cfg s))"
proof -
  assume inv: "session_inv cfg s"
  let ?s2 = "send (''220 '' @ domain cfg @ '' SMTP Ready'')
               (s\<lparr>client_ip := (case peername E of None \<Rightarrow> ''unknown'' | Some h \<Rightarrow> h)\<rparr>)"
  have "session_inv cfg ?s2" using inv by (simp add: session_inv_def)
  then have "session_inv cfg (snd (handle_loop E cfg ?s2))" by (rule handle_loop_inv)
  then show ?thesis
    by (auto simp: handle_def Let_def session_inv_def split: prod.splits outcome.splits)
qed


text \<open>
  C6. Whatever the client sends on a fresh connection, every mail the session hands to
  the store has at least one recipient, at most \<open>max_recipients\<close> recipients and a sender
  that is not empty. The two guards behind it: DATA with an empty \<open>mail_from\<close> (as
  \<^verbatim>\<open>MAIL FROM:<>\<close> leaves it) or an empty \<open>rcpt_to\<close> is answered with 503 and changes
  nothing else, and RCPT at the limit is answered with 452 and appends nothing.
\<close>

theorem C6_stored_mail_wellformed:
  "(\<forall>e\<in>set (email_repo (snd (handle E cfg (init evs)))).
       1 \<le> length (recipients e) \<and> int (length (recipients e)) \<le> max_recipients cfg
       \<and> sender e \<noteq> [])
   \<and> ((required (auth cfg) \<longrightarrow> authenticated s) \<and> (mail_from s = [] \<or> rcpt_to s = []) \<longrightarrow>
        handle_data E cfg s = (Return True, send ''503 Bad sequence of commands'' s))
   \<and> ((required (auth cfg) \<longrightarrow> authenticated s) \<and> max_recipients cfg \<le> int (length (rcpt_to s)) \<longrightarrow>
        handle_rcpt E cfg line s = (Return True, send ''452 Too many recipients'' s))"
proof -
  have "session_inv cfg (init evs)" by (simp add: session_inv_def init_def)
  then have "session_inv cfg (snd (handle E cfg (init evs)))" by (rule handle_inv)
  then have a: "\<forall>e\<in>set (email_repo (snd (handle E cfg (init evs)))).
       1 \<le> length (recipients e) \<and> int (length (recipients e)) \<le> max_recipients cfg
       \<and> sender e \<noteq> []"
    by (simp add: session_inv_def)
  have b: "handle_data E cfg s = (Return True, send ''503 Bad sequence of commands'' s)"
    if "required (auth cfg) \<longrightarrow> authenticated s" "mail_from s = [] \<or> rcpt_to s = []"
    using that by (auto simp: handle_data_def)
  have c: "handle_rcpt E cfg line s = (Return True, send ''452 Too many recipients'' s)"
    if "required (auth cfg) \<longrightarrow> authenticated s" "max_recipients cfg \<le> int (length (rcpt_to s))"
    using that by (auto simp: handle_rcpt_def)
  from a b c show ?thesis by blast
qed

theorem C6_stored_mail_wellformed_witness:
  "writer (snd (handle ascii_env (open_config\<lparr>max_recipients := 2\<rparr>)
      (init [crlf ''MAIL FROM:<>'', crlf ''RCPT TO:<a>'', crlf ''DATA'',
             crlf ''MAIL FROM:<a@x>'', crlf ''RCPT TO:<b>'', crlf ''RCPT TO:<c>'',
             crlf ''DATA'', crlf ''hello'', crlf ''.'', crlf ''QUIT''])))
     = [''220 localhost SMTP Ready'', ''250 OK'', ''250 OK'', ''503 Bad sequence of commands'',
        ''250 OK'', ''250 OK'', ''452 Too many recipients'',
        ''354 Start mail input; end with <CRLF>.<CRLF>'', ''250 OK: Message accepted'', ''221 Bye'']
   \<and> map recipients (email_repo (snd (handle ascii_env (open_config\<lparr>max_recipients := 2\<rparr>)
      (init [crlf ''MAIL FROM:<>'', crlf ''RCPT TO:<a>'', crlf ''DATA'',
             crlf ''MAIL FROM:<a@x>'', crlf ''RCPT TO:<b>'', crlf ''RCPT TO:<c>'',
             crlf ''DATA'', crlf ''hello'', crlf ''.'', crlf ''QUIT'']))))
     = [[''a'', ''b'']]
   \<and> 1 \<le> length (recipients (hd (email_repo (snd (handle ascii_env (open_config\<lparr>max_recipients := 2\<rparr>)
      (init [crlf ''MAIL FROM:<>'', crlf ''RCPT TO:<a>'', crlf ''DATA'',
             crlf ''MAIL FROM:<a@x>'', crlf ''RCPT TO:<b>'', crlf ''RCPT TO:<c>'',
             crlf ''DATA'', crlf ''hello'', crlf ''.'', crlf ''QUIT'']))))))
   \<and> int (length (recipients (hd (email_repo (snd (handle ascii_env (open_config\<lparr>max_recipients := 2\<rparr>)
      (init [crlf ''MAIL FROM:<>'', crlf ''RCPT TO:<a>'', crlf ''DATA'',
             crlf ''MAIL FROM:<a@x>'', crlf ''RCPT TO:<b>'', crlf ''RCPT TO:<c>'',
             crlf ''DATA'', crlf ''hello'', crlf ''.'', crlf ''QUIT'']))))))) \<le> 2
   \<and> sender (hd (email_repo (snd (handle ascii_env (open_config\<lparr>max_recipients := 2\<rparr>)
      (init [crlf ''MAIL FROM:<>'', crlf ''RCPT TO:<a>'', crlf ''DATA'',
             crlf ''MAIL FROM:<a@x>'', crlf ''RCPT TO:<b>'', crlf ''RCPT TO:<c>'',
             crlf ''DATA'', crlf ''hello'', crlf ''.'', crlf ''QUIT'']))))) \<noteq> []"
proof -
  let ?cfg = "open_config\<lparr>max_recipients := 2\<rparr>"
  let ?evs = "[crlf ''MAIL FROM:<>'', crlf ''RCPT TO:<a>'', crlf ''DATA'',
             crlf ''MAIL FROM:<a@x>'', crlf ''RCPT TO:<b>'', crlf ''RCPT TO:<c>'',
             crlf ''DATA'', crlf ''hello'', crlf ''.'', crlf ''QUIT'']"
  let ?R = "snd (handle ascii_env ?cfg (init ?evs))"
  have 1: "writer ?R
     = [''220 localhost SMTP Ready'', ''250 OK'', ''250 OK'', ''503 Bad sequence of commands'',
        ''250 OK'', ''250 OK'', ''452 Too many recipients'',
        ''354 Start mail input; end with <CRLF>.<CRLF>'', ''250 OK: Message accepted'', ''221 Bye'']"
    by code_simp
  have 2: "map recipients (email_repo ?R) = [[''a'', ''b'']]" by code_simp
  then have "email_repo ?R \<noteq> []" by auto
  then have 3: "hd (email_repo ?R) \<in> set (email_repo ?R)" by simp
  have 4: "max_recipients ?cfg = 2" by simp
  have "1 \<le> length (recipients (hd (email_repo ?R)))
      \<and> int (length (recipients (hd (email_repo ?R)))) \<le> 2
      \<and> sender (hd (email_repo ?R)) \<noteq> []"
    using C6_stored_mail_wellformed [of ascii_env ?cfg ?evs] 3 4 by auto
  with 1 2 show ?thesis by blast
qed

section \<open>Read timeouts\<close>

text \<open>A read of the command loop that times out is answered with 421 and ends the
  loop; so does the read of the AUTH PLAIN continuation line, whose handler returns
  \<open>False\<close>, and a read inside the DATA body.\<close>

lemma timeout_on_command_read:
  "reader s = Raises TimeoutError # rest \<Longrightarrow>
   handle_loop E cfg s = (Return (), send ''421 Timeout'' (s\<lparr>reader := rest\<rparr>))"
  by (subst handle_loop.simps) (simp add: readline_def)

lemma timeout_on_plain_continuation:
  "length parts \<noteq> 3 \<Longrightarrow> reader s = Raises TimeoutError # rest \<Longrightarrow>
   handle_auth_plain E cfg parts s
     = (Return False, send ''421 Timeout'' ((send ''334 '' s)\<lparr>reader := rest\<rparr>))"
  by (simp add: handle_auth_plain_def readline_def)

lemma data_loop_timeout:
  "\<forall>l\<in>set ls. \<not> is_terminator l \<Longrightarrow>
   tot + int (length (concat (map unstuff ls))) \<le> maxb \<Longrightarrow>
   data_loop maxb (map Line ls @ Raises TimeoutError # rest) data tot = (BodyTimeout, rest)"
proof (induction ls arbitrary: data tot)
  case Nil
  then show ?case by simp
next
  case (Cons l ls)
  have "tot + int (length (unstuff l)) \<le> maxb" using Cons.prems(2) by simp
  moreover have "data_loop maxb (map Line ls @ Raises TimeoutError # rest) (data @ [unstuff l])
        (tot + int (length (unstuff l))) = (BodyTimeout, rest)"
    using Cons.prems by (intro Cons.IH) (simp_all add: add.assoc)
  ultimately show ?case using Cons.prems(1) by (simp add: Let_def)
qed

lemma timeout_in_body:
  assumes "required (auth cfg) \<longrightarrow> authenticated s" and "mail_from s \<noteq> []" and "rcpt_to s \<noteq> []"
    and "reader s = map Line ls @ Raises TimeoutError # rest"
    and "\<forall>l\<in>set ls. \<not> is_terminator l"
    and "int (length (concat (map unstuff ls))) \<le> max_message_bytes cfg"
  shows "handle_data E cfg s
     = (Return False,
        send ''421 Timeout''
          ((send ''354 Start mail input; end with <CRLF>.<CRLF>'' s)\<lparr>reader := rest\<rparr>))"
proof -
  have "data_loop (max_message_bytes cfg) (map Line ls @ Raises TimeoutError # rest) [] 0
        = (BodyTimeout, rest)"
    using assms by (intro data_loop_timeout) simp_all
  then show ?thesis using assms(1-4) by (auto simp: handle_data_def Let_def)
qed

text \<open>In AUTH LOGIN both reads are inside \<^verbatim>\<open>try ... except Exception: pass\<close>: a read that
  times out is answered with 535 and the handler returns \<open>True\<close>.\<close>

lemma timeout_on_login_username:
  "reader s = Raises TimeoutError # rest \<Longrightarrow>
   handle_auth_login E cfg s
     = (Return True,
        send ''535 Authentication failed'' ((send ''334 VXNlcm5hbWU6'' s)\<lparr>reader := rest\<rparr>))"
  by (simp add: handle_auth_login_def readline_def)

lemma timeout_on_login_password:
  "reader s = Line b # Raises TimeoutError # rest \<Longrightarrow> login_decode E b = Some u \<Longrightarrow>
   handle_auth_login E cfg s
     = (Return True,
        send ''535 Authentication failed''
          ((send ''334 UGFzc3dvcmQ6'' (send ''334 VXNlcm5hbWU6'' s))\<lparr>reader := rest\<rparr>))"
  by (simp add: handle_auth_login_def readline_def send_def)

text \<open>
  C2. A read that exceeds the timeout is answered with 421 and closes the session when
  it is a read of the command loop, the continuation read of AUTH PLAIN or a read of the
  DATA body (the lemmas above). The two reads of AUTH LOGIN are the exception: the
  session answers 535 and goes on with the next command. The runs below time out the
  read of the user name, then the read of the password, and, for comparison, the
  continuation read of AUTH PLAIN, after which the next commands stay unread.
\<close>

theorem C2_auth_login_timeout:
  "fst (handle ascii_env alice_config
      (init [crlf ''AUTH LOGIN'', Raises TimeoutError, crlf ''NOOP'', crlf ''QUIT''])) = Return ()
   \<and> writer (snd (handle ascii_env alice_config
      (init [crlf ''AUTH LOGIN'', Raises TimeoutError, crlf ''NOOP'', crlf ''QUIT''])))
     = [''220 localhost SMTP Ready'', ''334 VXNlcm5hbWU6'', ''535 Authentication failed'',
        ''250 OK'', ''221 Bye'']
   \<and> writer (snd (handle ascii_env alice_config
      (init [crlf ''AUTH LOGIN'', crlf ''YWxpY2U='', Raises TimeoutError, crlf ''NOOP'', crlf ''QUIT''])))
     = [''220 localhost SMTP Ready'', ''334 VXNlcm5hbWU6'', ''334 UGFzc3dvcmQ6'',
        ''535 Authentication failed'', ''250 OK'', ''221 Bye'']
   \<and> writer (snd (handle ascii_env alice_config
      (init [crlf ''AUTH PLAIN'', Raises TimeoutError, crlf ''NOOP'', crlf ''QUIT''])))
     = [''220 localhost SMTP Ready'', ''334 '', ''421 Timeout'']
   \<and> reader (snd (handle ascii_env alice_config
      (init [crlf ''AUTH PLAIN'', Raises TimeoutError, crlf ''NOOP'', crlf ''QUIT''])))
     = [crlf ''NOOP'', crlf ''QUIT'']"
  by code_simp

end
